theory Spec2Isabelle
  imports Main
begin

section \<open>JavaScript values\<close>

text \<open>
  The values the server handles dynamically (what a cache entry holds, what a compute
  function returns). Numbers are kept as integers: the functions verified here only store,
  compare and test them for truthiness.
\<close>

datatype jsval =
    JUndefined
  | JNull
  | JBool bool
  | JNum int
  | JStr string
  | JArr "jsval list"
  | JObj "(string \<times> jsval) list"

text \<open>
  The truthiness test of \<^verbatim>\<open>if (v)\<close>, \<^verbatim>\<open>v && ...\<close> and \<^verbatim>\<open>v ? a : b\<close>:
  \<^verbatim>\<open>undefined\<close>, \<^verbatim>\<open>null\<close>, \<^verbatim>\<open>false\<close>, \<^verbatim>\<open>0\<close> and the empty string are falsy,
  every array and object is truthy.
\<close>

fun truthy :: "jsval \<Rightarrow> bool" where
  "truthy JUndefined = False"
| "truthy JNull = False"
| "truthy (JBool b) = b"
| "truthy (JNum n) = (n \<noteq> 0)"
| "truthy (JStr s) = (s \<noteq> [])"
| "truthy (JArr xs) = True"
| "truthy (JObj kvs) = True"

text \<open>A thrown exception, with its message.\<close>

datatype exn = JsError string

section \<open>Cache layer\<close>

text \<open>
  \<^verbatim>\<open>const cache = { systemStats: { data: null, lastUpdate: 0, ttl: 15000 }, ... }\<close>:
  an object from keys to entries. \<^verbatim>\<open>cache[key]\<close> is \<open>entries st key\<close>, and
  \<open>None\<close> is the \<^verbatim>\<open>undefined\<close> of a key that is not there.

  A compute function \<^verbatim>\<open>fetchFn\<close> is a closure over the outside world (shell commands,
  files): it reads and changes a world \<open>'w\<close>, and either returns a value or throws.
  \<open>fetches\<close> counts the invocations of compute functions; the source has no such
  counter, it is there so that "invoked at most once" can be stated.
\<close>

record cache_entry =
  data :: jsval
  lastUpdate :: int
  ttl :: int

record 'w cache_state =
  entries :: "string \<Rightarrow> cache_entry option"
  world :: 'w
  fetches :: nat

type_synonym 'w fetch_fn = "'w \<Rightarrow> (exn + jsval) \<times> 'w"

text \<open>
  \<^verbatim>\<open>
  function getCached(key, fetchFn) {
    const now = Date.now();
    let entry = cache[key];
    if (!entry) {
      cache[key] = { data: null, lastUpdate: 0, ttl: 30000 };
      entry = cache[key];
    }
    if (entry.data && (now - entry.lastUpdate) < entry.ttl) {
      return entry.data;
    }
    const data = fetchFn();
    entry.data = data;
    entry.lastUpdate = now;
    return data;
  }
  \<close>
  \<open>now\<close> is the reading of \<^verbatim>\<open>Date.now()\<close>. There is no \<^verbatim>\<open>try\<close> around
  \<^verbatim>\<open>fetchFn()\<close>: when it throws, the two assignments after it do not run and the
  exception is the outcome of \<open>getCached\<close> (\<open>Inl\<close>).
\<close>

definition getCached ::
  "string \<Rightarrow> 'w fetch_fn \<Rightarrow> int \<Rightarrow> 'w cache_state \<Rightarrow> (exn + jsval) \<times> 'w cache_state" where
  "getCached key fetchFn now st =
     (let st1 = (case entries st key of
                   None \<Rightarrow> st\<lparr>entries := (entries st)(key \<mapsto> \<lparr>data = JNull, lastUpdate = 0, ttl = 30000\<rparr>)\<rparr>
                 | Some e \<Rightarrow> st);
          entry = (case entries st key of
                     None \<Rightarrow> \<lparr>data = JNull, lastUpdate = 0, ttl = 30000\<rparr>
                   | Some e \<Rightarrow> e)
      in if truthy (data entry) \<and> now - lastUpdate entry < ttl entry
         then (Inr (data entry), st1)
         else (case fetchFn (world st1) of
                 (Inl e, w) \<Rightarrow> (Inl e, st1\<lparr>world := w, fetches := Suc (fetches st1)\<rparr>)
               | (Inr d, w) \<Rightarrow>
                   (Inr d, st1\<lparr>entries := (entries st1)(key \<mapsto> entry\<lparr>data := d, lastUpdate := now\<rparr>),
                                world := w, fetches := Suc (fetches st1)\<rparr>)))"

text \<open>
  \<^verbatim>\<open>
  function invalidateCache(keys) {
    keys.forEach(key => { if (cache[key]) { cache[key].data = null; } });
  }
  \<close>
\<close>

definition invalidate_key :: "string \<Rightarrow> 'w cache_state \<Rightarrow> 'w cache_state" where
  "invalidate_key key st =
     (case entries st key of
        None \<Rightarrow> st
      | Some e \<Rightarrow> st\<lparr>entries := (entries st)(key \<mapsto> e\<lparr>data := JNull\<rparr>)\<rparr>)"

definition invalidateCache :: "string list \<Rightarrow> 'w cache_state \<Rightarrow> 'w cache_state" where
  "invalidateCache keys st = fold invalidate_key keys st"

text \<open>The time to live of a key: that of its entry, or of the entry \<open>getCached\<close> creates.\<close>

definition ttl_of :: "'w cache_state \<Rightarrow> string \<Rightarrow> int" where
  "ttl_of st key = (case entries st key of None \<Rightarrow> 30000 | Some e \<Rightarrow> ttl e)"

text \<open>The time of the last update of a key's entry (0 in the entry \<open>getCached\<close> creates).\<close>

definition lastUpdate_of :: "'w cache_state \<Rightarrow> string \<Rightarrow> int" where
  "lastUpdate_of st key = (case entries st key of None \<Rightarrow> 0 | Some e \<Rightarrow> lastUpdate e)"

subsection \<open>Concrete caches and compute functions\<close>

definition empty_cache :: "unit cache_state" where
  "empty_cache = \<lparr>entries = (\<lambda>k. None), world = (), fetches = 0\<rparr>"

definition fetch_null :: "unit fetch_fn" where
  "fetch_null w = (Inr JNull, w)"

definition fetch_weather :: "unit fetch_fn" where
  "fetch_weather w = (Inr (JObj [(''temp'', JNum 12)]), w)"

definition fetch_throws :: "unit fetch_fn" where
  "fetch_throws w = (Inl (JsError ''ETIMEDOUT''), w)"

definition stale_weather :: "unit cache_state" where
  "stale_weather =
     \<lparr>entries = (\<lambda>k. None)(''weather'' \<mapsto> \<lparr>data = JObj [(''temp'', JNum 9)], lastUpdate = 1000, ttl = 30000\<rparr>),
      world = (), fetches = 0\<rparr>"


section \<open>Task store: data\<close>

text \<open>
  The objects of \<^verbatim>\<open>tasks.json\<close>, with the fields the server reads and writes. A field
  name carries a prefix for its record (\<open>t_\<close> task, \<open>a_\<close> activity, \<open>c_\<close> comment,
  \<open>l_\<close> log entry, \<open>p_\<close> agent profile). A property that an object may lack is an
  \<open>option\<close>: \<open>None\<close> is \<^verbatim>\<open>undefined\<close> (or \<^verbatim>\<open>null\<close> for \<open>t_assignee\<close>).
\<close>

record comment =
  c_id :: string
  c_author :: string
  c_text :: string
  c_timestamp :: string

record log_entry =
  l_id :: string
  l_type :: string
  l_agent :: string
  l_message :: string
  l_timestamp :: string

record task =
  t_id :: string
  t_title :: string
  t_description :: string
  t_status :: string
  t_assignee :: "string option"
  t_category :: string
  t_priority :: string
  t_createdAt :: string
  t_updatedAt :: string
  t_comments :: "comment list option"
  t_logs :: "log_entry list option"

record activity =
  a_id :: string
  a_type :: string
  a_action :: string
  a_agent :: string
  a_taskId :: string
  a_taskTitle :: "string option"
  a_from :: "string option"
  a_to :: "string option"
  a_target :: "string option"
  a_timestamp :: string

record agent_profile =
  p_name :: string
  p_role :: string
  p_department :: string
  p_badges :: "string list"
  p_color :: string
  p_model :: string

record tasks_document =
  version :: string
  lastUpdated :: string
  columns :: "string list"
  tasks :: "task list"
  activity :: "activity list"
  agents :: "(string \<times> agent_profile) list"

text \<open>
  The \<^verbatim>\<open>updates\<close> object of \<^verbatim>\<open>updateTask\<close> (the body of a PATCH request): any subset
  of a task's properties. \<open>None\<close> is a property the object does not have.
  \<^verbatim>\<open>updatedAt\<close> is left out: the spread \<^verbatim>\<open>{ ...oldTask, ...updates, updatedAt: ... }\<close>
  overwrites it.
\<close>

record task_updates =
  u_id :: "string option"
  u_title :: "string option"
  u_description :: "string option"
  u_status :: "string option"
  u_assignee :: "string option option"
  u_category :: "string option"
  u_priority :: "string option"
  u_createdAt :: "string option"
  u_comments :: "comment list option"
  u_logs :: "log_entry list option"

text \<open>Truthiness of a string, and of a string that may be \<^verbatim>\<open>null\<close> or \<^verbatim>\<open>undefined\<close>.\<close>

definition truthy_str :: "string \<Rightarrow> bool" where
  "truthy_str s = (s \<noteq> [])"

definition truthy_opt :: "string option \<Rightarrow> bool" where
  "truthy_opt v = (case v of None \<Rightarrow> False | Some s \<Rightarrow> truthy_str s)"

text \<open>
  What the clock and the random generator give during one operation:
  \<open>e_now\<close> is the \<^verbatim>\<open>Date.now()\<close> of \<^verbatim>\<open>loadTasks\<close> / \<^verbatim>\<open>loadMessages\<close>,
  \<open>e_default_stamp\<close> the \<^verbatim>\<open>new Date().toISOString()\<close> of the default document,
  \<open>e_iso n\<close> the \<open>n\<close>-th \<^verbatim>\<open>new Date().toISOString()\<close> of the operation itself,
  \<open>e_millis n\<close> and \<open>e_random n\<close> the \<^verbatim>\<open>Date.now()\<close> (in decimal) and the
  \<^verbatim>\<open>Math.random().toString(36).substr(2, 9)\<close> of its \<open>n\<close>-th \<^verbatim>\<open>generateId\<close>.
\<close>

record env =
  e_now :: int
  e_default_stamp :: string
  e_iso :: "nat \<Rightarrow> string"
  e_millis :: "nat \<Rightarrow> string"
  e_random :: "nat \<Rightarrow> string"

text \<open>
  \<^verbatim>\<open>
  function generateId(prefix = 'item') {
    return `${prefix}-${Date.now()}-${Math.random().toString(36).substr(2, 9)}`;
  }
  \<close>
\<close>

definition generateId :: "string \<Rightarrow> env \<Rightarrow> nat \<Rightarrow> string" where
  "generateId prefix e n = prefix @ ''-'' @ e_millis e n @ ''-'' @ e_random e n"

text \<open>\<^verbatim>\<open>xs.findIndex(p)\<close>: the first index whose element satisfies \<open>p\<close>; \<open>None\<close> is -1.\<close>

fun findIndex :: "('a \<Rightarrow> bool) \<Rightarrow> 'a list \<Rightarrow> nat option" where
  "findIndex p [] = None"
| "findIndex p (x # xs) =
     (if p x then Some 0 else (case findIndex p xs of None \<Rightarrow> None | Some i \<Rightarrow> Some (Suc i)))"

text \<open>\<^verbatim>\<open>xs.slice(-n)\<close> for a positive \<open>n\<close>: the last \<open>n\<close> elements, all of them when there are fewer.\<close>

definition slice_last :: "nat \<Rightarrow> 'a list \<Rightarrow> 'a list" where
  "slice_last n xs = drop (length xs - n) xs"

text \<open>\<^verbatim>\<open>xs.splice(i, 1)\<close>: the list without its element at \<open>i\<close>.\<close>

definition splice1 :: "nat \<Rightarrow> 'a list \<Rightarrow> 'a list" where
  "splice1 i xs = take i xs @ drop (Suc i) xs"

text \<open>\<^verbatim>\<open>getDefaultTasks()\<close>: the document returned when the file cannot be read.\<close>

definition getDefaultTasks :: "string \<Rightarrow> tasks_document" where
  "getDefaultTasks stamp =
     \<lparr>version = ''1.0'',
      lastUpdated = stamp,
      columns = [''inbox'', ''assigned'', ''in_progress'', ''peer_review'', ''review'', ''done''],
      tasks = [],
      activity = [],
      agents =
        [(''seven'', \<lparr>p_name = ''Seven of Nine'', p_role = ''Number One'', p_department = ''CMD'',
            p_badges = [''LEAD''], p_color = ''#cc99cc'', p_model = ''opus''\<rparr>),
         (''geordi'', \<lparr>p_name = ''Geordi La Forge'', p_role = ''Chief Engineer'', p_department = ''ENG'',
            p_badges = [''SPC''], p_color = ''#9999ff'', p_model = ''opus''\<rparr>),
         (''belanna'', \<lparr>p_name = ''B'' @ [CHR 0x27] @ ''Elanna Torres'', p_role = ''Engineering'',
            p_department = ''ENG'', p_badges = [''SPC''], p_color = ''#cc6666'', p_model = ''codex''\<rparr>),
         (''icheb'', \<lparr>p_name = ''Icheb'', p_role = ''Borg Specialist'', p_department = ''ENG'',
            p_badges = [], p_color = ''#66cccc'', p_model = ''minimax''\<rparr>),
         (''uhura'', \<lparr>p_name = ''Nyota Uhura'', p_role = ''Comms Officer'', p_department = ''COM'',
            p_badges = [''SPC''], p_color = ''#cc6699'', p_model = ''opus''\<rparr>),
         (''hoshi'', \<lparr>p_name = ''Hoshi Sato'', p_role = ''Linguist'', p_department = ''COM'',
            p_badges = [], p_color = ''#cc99ff'', p_model = ''codex''\<rparr>),
         (''harry'', \<lparr>p_name = ''Harry Kim'', p_role = ''Operations'', p_department = ''COM'',
            p_badges = [], p_color = ''#99ccff'', p_model = ''minimax''\<rparr>),
         (''spock'', \<lparr>p_name = ''Spock'', p_role = ''Science Officer'', p_department = ''SCI'',
            p_badges = [''SPC''], p_color = ''#99cc99'', p_model = ''opus''\<rparr>),
         (''tuvok'', \<lparr>p_name = ''Tuvok'', p_role = ''Security/Research'', p_department = ''SCI'',
            p_badges = [], p_color = ''#9999cc'', p_model = ''codex''\<rparr>),
         (''doctor'', \<lparr>p_name = ''The Doctor'', p_role = ''EMH Research'', p_department = ''SCI'',
            p_badges = [], p_color = ''#99ff99'', p_model = ''minimax''\<rparr>),
         (''quark'', \<lparr>p_name = ''Quark'', p_role = ''Trade Advisor'', p_department = ''TRD'',
            p_badges = [''SPC''], p_color = ''#ffcc99'', p_model = ''opus''\<rparr>),
         (''tom'', \<lparr>p_name = ''Tom Paris'', p_role = ''Risk Trader'', p_department = ''TRD'',
            p_badges = [], p_color = ''#ff9999'', p_model = ''codex''\<rparr>),
         (''neelix'', \<lparr>p_name = ''Neelix'', p_role = ''Resource Mgmt'', p_department = ''TRD'',
            p_badges = [], p_color = ''#ffcc66'', p_model = ''minimax''\<rparr>),
         (''data'', \<lparr>p_name = ''Data'', p_role = ''Quality Control'', p_department = ''QC'',
            p_badges = [''SPC'', ''QC''], p_color = ''#ffd700'', p_model = ''opus''\<rparr>),
         (''lal'', \<lparr>p_name = ''Lal'', p_role = ''QC Testing'', p_department = ''QC'',
            p_badges = [''QC''], p_color = ''#ffdd55'', p_model = ''codex''\<rparr>)]\<rparr>"


section \<open>Task store: loading, pruning, saving\<close>

text \<open>
  The state of the store: the tasks file (\<open>None\<close> when \<^verbatim>\<open>existsSync\<close> is false or
  reading and parsing it throws), the read cache \<^verbatim>\<open>tasksCache = { data, lastLoad }\<close>
  (\<open>None\<close> is \<^verbatim>\<open>data: null\<close>; a document is an object, so \<^verbatim>\<open>tasksCache.data &&\<close>
  tests for \<open>Some\<close>), and \<open>writes\<close>, the documents handed to the safe writer so far.
  The source keeps no such list: it is there so that "no save is performed" can be stated.
\<close>

record store =
  tasks_file :: "tasks_document option"
  tasksCache_data :: "tasks_document option"
  tasksCache_lastLoad :: int
  writes :: "tasks_document list"

definition TASKS_CACHE_TTL :: int where
  "TASKS_CACHE_TTL = 2000"

definition MAX_ACTIVITY_ENTRIES :: nat where
  "MAX_ACTIVITY_ENTRIES = 500"

definition MAX_LOGS_PER_TASK :: nat where
  "MAX_LOGS_PER_TASK = 50"

text \<open>
  \<^verbatim>\<open>
  function loadTasks() {
    const now = Date.now();
    if (tasksCache.data && (now - tasksCache.lastLoad) < TASKS_CACHE_TTL) {
      return tasksCache.data;
    }
    try {
      if (existsSync(TASKS_FILE)) {
        tasksCache.data = JSON.parse(readFileSync(TASKS_FILE, 'utf-8'));
        tasksCache.lastLoad = now;
        return tasksCache.data;
      }
    } catch (e) { log(...); }
    return getDefaultTasks();
  }
  \<close>
  The function returns an object, not a copy: in its first two exits the caller holds the
  very object \<^verbatim>\<open>tasksCache.data\<close> points to, and what the caller then changes in place
  is changed in the cache. The flag returned with the document says so (\<open>True\<close>: the
  document is the cache's object; \<open>False\<close>: it is the fresh default document).
\<close>

definition read_file :: "env \<Rightarrow> store \<Rightarrow> tasks_document \<times> bool \<times> store" where
  "read_file e st =
     (case tasks_file st of
        Some d \<Rightarrow> (d, True, st\<lparr>tasksCache_data := Some d, tasksCache_lastLoad := e_now e\<rparr>)
      | None \<Rightarrow> (getDefaultTasks (e_default_stamp e), False, st))"

definition loadTasks :: "env \<Rightarrow> store \<Rightarrow> tasks_document \<times> bool \<times> store" where
  "loadTasks e st =
     (case tasksCache_data st of
        Some d \<Rightarrow>
          if e_now e - tasksCache_lastLoad st < TASKS_CACHE_TTL then (d, True, st)
          else read_file e st
      | None \<Rightarrow> read_file e st)"

text \<open>
  \<^verbatim>\<open>
  function pruneTaskData(tasksData) {
    let pruned = false;
    if (tasksData.activity && tasksData.activity.length > MAX_ACTIVITY_ENTRIES) {
      tasksData.activity = tasksData.activity.slice(-MAX_ACTIVITY_ENTRIES);
      pruned = true;
    }
    if (tasksData.tasks) {
      tasksData.tasks = tasksData.tasks.map(task => {
        if (task.logs && task.logs.length > MAX_LOGS_PER_TASK) {
          task.logs = task.logs.slice(-MAX_LOGS_PER_TASK);
          pruned = true;
        }
        return task;
      });
    }
    return pruned;
  }
  \<close>
  The document is changed in place; the model returns the flag and the changed document.
  The \<open>tasks\<close> and \<open>activity\<close> of a document are lists, so the two tests that they are
  there succeed.
\<close>

definition logs_over :: "task \<Rightarrow> bool" where
  "logs_over t = (case t_logs t of None \<Rightarrow> False | Some ls \<Rightarrow> length ls > MAX_LOGS_PER_TASK)"

definition prune_task :: "task \<Rightarrow> task" where
  "prune_task t =
     (case t_logs t of
        None \<Rightarrow> t
      | Some ls \<Rightarrow>
          if length ls > MAX_LOGS_PER_TASK then t\<lparr>t_logs := Some (slice_last MAX_LOGS_PER_TASK ls)\<rparr>
          else t)"

definition pruneTaskData :: "tasks_document \<Rightarrow> bool \<times> tasks_document" where
  "pruneTaskData tasksData =
     (let d1 = (if length (activity tasksData) > MAX_ACTIVITY_ENTRIES
                then tasksData\<lparr>activity := slice_last MAX_ACTIVITY_ENTRIES (activity tasksData)\<rparr>
                else tasksData);
          d2 = d1\<lparr>tasks := map prune_task (tasks d1)\<rparr>
      in (length (activity tasksData) > MAX_ACTIVITY_ENTRIES \<or> list_ex logs_over (tasks tasksData), d2))"

text \<open>
  What the safe writer answers to one call: \<open>WriteOk\<close> is \<^verbatim>\<open>success: true\<close>,
  \<open>WriteBlocked\<close> is \<^verbatim>\<open>success: false, blocked: true\<close> (the writer refuses an unsafe
  overwrite), \<open>WriteFailed\<close> is \<^verbatim>\<open>success: false\<close> with an error, \<open>WriteThrew\<close> is an
  exception out of the call.
\<close>

datatype write_outcome = WriteOk | WriteBlocked | WriteFailed | WriteThrew

text \<open>
  Modelled from the spec: the safe writer \<^verbatim>\<open>tasksBackup.safeWriteTasks\<close> is an external
  module (\<^verbatim>\<open>~/.openclaw/crew/tasks-backup.js\<close>, not part of the repository), with the
  contract \<^verbatim>\<open>write(doc, reason) -> {success, blocked, error}\<close>. What it answers is a
  parameter of every operation that saves. After \<open>WriteOk\<close> the file holds the document
  the writer was given; after any other answer the file is left as it was. Every call is
  recorded in \<open>writes\<close>.
\<close>

definition safeWriteTasks :: "write_outcome \<Rightarrow> tasks_document \<Rightarrow> store \<Rightarrow> store" where
  "safeWriteTasks wr d st =
     (case wr of
        WriteOk \<Rightarrow> st\<lparr>tasks_file := Some d, writes := writes st @ [d]\<rparr>
      | _ \<Rightarrow> st\<lparr>writes := writes st @ [d]\<rparr>)"

text \<open>
  A document changed in place: when it is the cache's object, the cache holds the change.
\<close>

definition in_place :: "bool \<Rightarrow> tasks_document \<Rightarrow> store \<Rightarrow> store" where
  "in_place shared d st = (if shared then st\<lparr>tasksCache_data := Some d\<rparr> else st)"

text \<open>
  \<^verbatim>\<open>
  function saveTasks(tasksData, reason = 'dashboard-update') {
    try {
      pruneTaskData(tasksData);
      const result = tasksBackup.safeWriteTasks(tasksData, { reason });
      if (!result.success) {
        if (result.blocked) { log('WARN', ...); } else { log('ERROR', ...); }
        return false;
      }
      tasksCache.data = null;
      log('INFO', 'Tasks saved successfully', ...);
      return true;
    } catch (e) {
      log('ERROR', ...);
      return false;
    }
  }
  \<close>
  \<open>saveTasks wr shared tasksData st\<close>: \<open>tasksData\<close> is the document as its caller has
  changed it, \<open>shared\<close> the flag of \<open>loadTasks\<close>. The result is what the function
  returns, the document after the pruning in place, and the store. Only a successful
  write resets \<^verbatim>\<open>tasksCache.data\<close>.
\<close>

definition saveTasks ::
  "write_outcome \<Rightarrow> bool \<Rightarrow> tasks_document \<Rightarrow> store \<Rightarrow> bool \<times> tasks_document \<times> store" where
  "saveTasks wr shared tasksData st =
     (let d = snd (pruneTaskData tasksData);
          st1 = safeWriteTasks wr d (in_place shared d st)
      in case wr of
           WriteOk \<Rightarrow> (True, d, st1\<lparr>tasksCache_data := None\<rparr>)
         | _ \<Rightarrow> (False, d, st1))"


section \<open>Task store: operations\<close>

text \<open>
  Each operation is \<^verbatim>\<open>loadTasks()\<close>, a change of the loaded document in place, and
  \<^verbatim>\<open>saveTasks(tasksData)\<close>, whose result the operation does not look at. The change of
  the document is a function of its own (\<open>..._in\<close>), the operation on the store follows it.
\<close>

text \<open>\<^verbatim>\<open>{ ...oldTask, ...updates, updatedAt: new Date().toISOString() }\<close>\<close>

definition merge_updates :: "task \<Rightarrow> task_updates \<Rightarrow> string \<Rightarrow> task" where
  "merge_updates oldTask updates stamp =
     \<lparr>t_id = (case u_id updates of None \<Rightarrow> t_id oldTask | Some v \<Rightarrow> v),
      t_title = (case u_title updates of None \<Rightarrow> t_title oldTask | Some v \<Rightarrow> v),
      t_description = (case u_description updates of None \<Rightarrow> t_description oldTask | Some v \<Rightarrow> v),
      t_status = (case u_status updates of None \<Rightarrow> t_status oldTask | Some v \<Rightarrow> v),
      t_assignee = (case u_assignee updates of None \<Rightarrow> t_assignee oldTask | Some v \<Rightarrow> v),
      t_category = (case u_category updates of None \<Rightarrow> t_category oldTask | Some v \<Rightarrow> v),
      t_priority = (case u_priority updates of None \<Rightarrow> t_priority oldTask | Some v \<Rightarrow> v),
      t_createdAt = (case u_createdAt updates of None \<Rightarrow> t_createdAt oldTask | Some v \<Rightarrow> v),
      t_updatedAt = stamp,
      t_comments = (case u_comments updates of None \<Rightarrow> t_comments oldTask | Some v \<Rightarrow> Some v),
      t_logs = (case u_logs updates of None \<Rightarrow> t_logs oldTask | Some v \<Rightarrow> Some v)\<rparr>"

text \<open>The activity record pushed for a status change.\<close>

definition moved_activity :: "string \<Rightarrow> task \<Rightarrow> task \<Rightarrow> string \<Rightarrow> env \<Rightarrow> activity" where
  "moved_activity taskId oldTask updatedTask newStatus e =
     \<lparr>a_id = generateId ''act'' e 0, a_type = ''status'', a_action = ''moved'', a_agent = ''system'',
      a_taskId = taskId, a_taskTitle = Some (t_title updatedTask),
      a_from = Some (t_status oldTask), a_to = Some newStatus, a_target = None,
      a_timestamp = e_iso e 1\<rparr>"

text \<open>
  \<^verbatim>\<open>
  function updateTask(taskId, updates) {
    const tasksData = loadTasks();
    const taskIndex = tasksData.tasks.findIndex(t => t.id === taskId);
    if (taskIndex === -1) { log('WARN', 'Task not found:', { taskId }); return null; }
    const oldTask = tasksData.tasks[taskIndex];
    const updatedTask = { ...oldTask, ...updates, updatedAt: new Date().toISOString() };
    tasksData.tasks[taskIndex] = updatedTask;
    if (updates.status && updates.status !== oldTask.status) {
      tasksData.activity.push({ id: generateId('act'), type: 'status', action: 'moved',
        agent: 'system', taskId: taskId, taskTitle: updatedTask.title,
        from: oldTask.status, to: updates.status, timestamp: new Date().toISOString() });
    }
    saveTasks(tasksData);
    return updatedTask;
  }
  \<close>
  \<open>updateTask_in\<close> gives the index found and the changed document, \<open>None\<close> when no
  task has the id. The task returned by \<open>updateTask\<close> is the object standing in the
  document, so it is read there after \<^verbatim>\<open>saveTasks\<close> has pruned in place.
\<close>

definition updateTask_in :: "string \<Rightarrow> task_updates \<Rightarrow> env \<Rightarrow> tasks_document \<Rightarrow> (nat \<times> tasks_document) option" where
  "updateTask_in taskId updates e tasksData =
     (case findIndex (\<lambda>t. t_id t = taskId) (tasks tasksData) of
        None \<Rightarrow> None
      | Some taskIndex \<Rightarrow>
          (let oldTask = tasks tasksData ! taskIndex;
               updatedTask = merge_updates oldTask updates (e_iso e 0);
               d1 = tasksData\<lparr>tasks := (tasks tasksData)[taskIndex := updatedTask]\<rparr>
           in Some (taskIndex,
                (case u_status updates of
                   None \<Rightarrow> d1
                 | Some s \<Rightarrow>
                     if truthy_str s \<and> s \<noteq> t_status oldTask
                     then d1\<lparr>activity := activity d1 @ [moved_activity taskId oldTask updatedTask s e]\<rparr>
                     else d1))))"

definition updateTask :: "string \<Rightarrow> task_updates \<Rightarrow> env \<Rightarrow> write_outcome \<Rightarrow> store \<Rightarrow> task option \<times> store" where
  "updateTask taskId updates e wr st =
     (case loadTasks e st of
        (tasksData, shared, st1) \<Rightarrow>
          (case updateTask_in taskId updates e tasksData of
             None \<Rightarrow> (None, st1)
           | Some (taskIndex, d) \<Rightarrow>
               (case saveTasks wr shared d st1 of
                  (ok, d', st2) \<Rightarrow> (Some (tasks d' ! taskIndex), st2))))"

text \<open>
  \<^verbatim>\<open>
  function deleteTask(taskId) {
    const tasksData = loadTasks();
    const taskIndex = tasksData.tasks.findIndex(t => t.id === taskId);
    if (taskIndex === -1) { return null; }
    const deletedTask = tasksData.tasks[taskIndex];
    tasksData.tasks.splice(taskIndex, 1);
    tasksData.activity.push({ id: generateId('act'), type: 'task', action: 'deleted',
      agent: 'system', taskId: taskId, taskTitle: deletedTask.title,
      timestamp: new Date().toISOString() });
    saveTasks(tasksData);
    return deletedTask;
  }
  \<close>
\<close>

definition deleteTask_in :: "string \<Rightarrow> env \<Rightarrow> tasks_document \<Rightarrow> (task \<times> tasks_document) option" where
  "deleteTask_in taskId e tasksData =
     (case findIndex (\<lambda>t. t_id t = taskId) (tasks tasksData) of
        None \<Rightarrow> None
      | Some taskIndex \<Rightarrow>
          (let deletedTask = tasks tasksData ! taskIndex
           in Some (deletedTask,
                tasksData\<lparr>tasks := splice1 taskIndex (tasks tasksData),
                          activity := activity tasksData @
                            [\<lparr>a_id = generateId ''act'' e 0, a_type = ''task'', a_action = ''deleted'',
                              a_agent = ''system'', a_taskId = taskId,
                              a_taskTitle = Some (t_title deletedTask), a_from = None, a_to = None,
                              a_target = None, a_timestamp = e_iso e 0\<rparr>]\<rparr>)))"

definition deleteTask :: "string \<Rightarrow> env \<Rightarrow> write_outcome \<Rightarrow> store \<Rightarrow> task option \<times> store" where
  "deleteTask taskId e wr st =
     (case loadTasks e st of
        (tasksData, shared, st1) \<Rightarrow>
          (case deleteTask_in taskId e tasksData of
             None \<Rightarrow> (None, st1)
           | Some (deletedTask, d) \<Rightarrow>
               (case saveTasks wr shared d st1 of
                  (ok, d', st2) \<Rightarrow> (Some deletedTask, st2))))"

text \<open>
  \<^verbatim>\<open>
  function addTaskComment(taskId, author, text) {
    const tasksData = loadTasks();
    const taskIndex = tasksData.tasks.findIndex(t => t.id === taskId);
    if (taskIndex === -1) { log('WARN', ...); return null; }
    const comment = { id: generateId('c'), author: author, text: text,
                      timestamp: new Date().toISOString() };
    if (!tasksData.tasks[taskIndex].comments) { tasksData.tasks[taskIndex].comments = []; }
    tasksData.tasks[taskIndex].comments.push(comment);
    tasksData.tasks[taskIndex].updatedAt = new Date().toISOString();
    tasksData.activity.push({ id: generateId('act'), type: 'comment', action: 'added',
      agent: author, taskId: taskId, taskTitle: tasksData.tasks[taskIndex].title,
      timestamp: new Date().toISOString() });
    saveTasks(tasksData);
    return comment;
  }
  \<close>
\<close>

definition addTaskComment_in ::
  "string \<Rightarrow> string \<Rightarrow> string \<Rightarrow> env \<Rightarrow> tasks_document \<Rightarrow> (comment \<times> tasks_document) option" where
  "addTaskComment_in taskId author text e tasksData =
     (case findIndex (\<lambda>t. t_id t = taskId) (tasks tasksData) of
        None \<Rightarrow> None
      | Some taskIndex \<Rightarrow>
          (let comment = \<lparr>c_id = generateId ''c'' e 0, c_author = author, c_text = text,
                          c_timestamp = e_iso e 0\<rparr>;
               t = tasks tasksData ! taskIndex;
               t' = t\<lparr>t_comments := Some ((case t_comments t of None \<Rightarrow> [] | Some cs \<Rightarrow> cs) @ [comment]),
                      t_updatedAt := e_iso e 1\<rparr>
           in Some (comment,
                tasksData\<lparr>tasks := (tasks tasksData)[taskIndex := t'],
                          activity := activity tasksData @
                            [\<lparr>a_id = generateId ''act'' e 1, a_type = ''comment'', a_action = ''added'',
                              a_agent = author, a_taskId = taskId, a_taskTitle = Some (t_title t'),
                              a_from = None, a_to = None, a_target = None,
                              a_timestamp = e_iso e 2\<rparr>]\<rparr>)))"

definition addTaskComment ::
  "string \<Rightarrow> string \<Rightarrow> string \<Rightarrow> env \<Rightarrow> write_outcome \<Rightarrow> store \<Rightarrow> comment option \<times> store" where
  "addTaskComment taskId author text e wr st =
     (case loadTasks e st of
        (tasksData, shared, st1) \<Rightarrow>
          (case addTaskComment_in taskId author text e tasksData of
             None \<Rightarrow> (None, st1)
           | Some (comment, d) \<Rightarrow>
               (case saveTasks wr shared d st1 of
                  (ok, d', st2) \<Rightarrow> (Some comment, st2))))"

text \<open>
  \<^verbatim>\<open>
  function createTask(title, description, assignee = null, category = 'general',
                      priority = 'medium') {
    const tasksData = loadTasks();
    const task = { id: generateId('task'), title: title, description: description,
      status: assignee ? 'assigned' : 'inbox', assignee: assignee, category: category,
      priority: priority, createdAt: new Date().toISOString(),
      updatedAt: new Date().toISOString(), comments: [] };
    tasksData.tasks.push(task);
    tasksData.activity.push({ id: generateId('act'), type: 'task', action: 'created',
      agent: 'system', taskId: task.id, taskTitle: task.title,
      timestamp: new Date().toISOString() });
    if (assignee) {
      tasksData.activity.push({ id: generateId('act'), type: 'status', action: 'assigned',
        agent: 'system', taskId: task.id, target: assignee,
        timestamp: new Date().toISOString() });
    }
    saveTasks(tasksData);
    return task;
  }
  \<close>
  \<open>assignee\<close> is \<open>None\<close> for \<^verbatim>\<open>null\<close> and for an argument left out; \<open>category\<close> and
  \<open>priority\<close> are \<open>None\<close> when left out, and then take their defaults.
\<close>

definition new_task ::
  "string \<Rightarrow> string \<Rightarrow> string option \<Rightarrow> string option \<Rightarrow> string option \<Rightarrow> env \<Rightarrow> task" where
  "new_task title description assignee category priority e =
     \<lparr>t_id = generateId ''task'' e 0, t_title = title, t_description = description,
      t_status = (if truthy_opt assignee then ''assigned'' else ''inbox''),
      t_assignee = assignee,
      t_category = (case category of None \<Rightarrow> ''general'' | Some c \<Rightarrow> c),
      t_priority = (case priority of None \<Rightarrow> ''medium'' | Some p \<Rightarrow> p),
      t_createdAt = e_iso e 0, t_updatedAt = e_iso e 1, t_comments = Some [], t_logs = None\<rparr>"

definition created_activity :: "task \<Rightarrow> env \<Rightarrow> activity" where
  "created_activity task e =
     \<lparr>a_id = generateId ''act'' e 1, a_type = ''task'', a_action = ''created'', a_agent = ''system'',
      a_taskId = t_id task, a_taskTitle = Some (t_title task), a_from = None, a_to = None,
      a_target = None, a_timestamp = e_iso e 2\<rparr>"

definition assigned_activity :: "task \<Rightarrow> string option \<Rightarrow> env \<Rightarrow> activity" where
  "assigned_activity task assignee e =
     \<lparr>a_id = generateId ''act'' e 2, a_type = ''status'', a_action = ''assigned'', a_agent = ''system'',
      a_taskId = t_id task, a_taskTitle = None, a_from = None, a_to = None,
      a_target = assignee, a_timestamp = e_iso e 3\<rparr>"

definition createTask_in ::
  "string \<Rightarrow> string \<Rightarrow> string option \<Rightarrow> string option \<Rightarrow> string option \<Rightarrow> env \<Rightarrow> tasks_document
     \<Rightarrow> task \<times> tasks_document" where
  "createTask_in title description assignee category priority e tasksData =
     (let task = new_task title description assignee category priority e;
          d1 = tasksData\<lparr>tasks := tasks tasksData @ [task]\<rparr>;
          d2 = d1\<lparr>activity := activity d1 @ [created_activity task e]\<rparr>
      in (task,
          if truthy_opt assignee
          then d2\<lparr>activity := activity d2 @ [assigned_activity task assignee e]\<rparr>
          else d2))"

definition createTask ::
  "string \<Rightarrow> string \<Rightarrow> string option \<Rightarrow> string option \<Rightarrow> string option \<Rightarrow> env \<Rightarrow> write_outcome \<Rightarrow> store
     \<Rightarrow> task \<times> store" where
  "createTask title description assignee category priority e wr st =
     (case loadTasks e st of
        (tasksData, shared, st1) \<Rightarrow>
          (case createTask_in title description assignee category priority e tasksData of
             (task, d) \<Rightarrow>
               (case saveTasks wr shared d st1 of
                  (ok, d', st2) \<Rightarrow> (task, st2))))"

subsection \<open>Concrete documents, stores and requests\<close>

text \<open>The updates object \<^verbatim>\<open>{ status: s }\<close>.\<close>

definition status_only :: "string \<Rightarrow> task_updates" where
  "status_only s = \<lparr>u_id = None, u_title = None, u_description = None, u_status = Some s,
     u_assignee = None, u_category = None, u_priority = None, u_createdAt = None,
     u_comments = None, u_logs = None\<rparr>"

text \<open>A clock that reads \<open>t\<close> ms, with fixed stamps and random suffixes.\<close>

definition env_at :: "int \<Rightarrow> env" where
  "env_at t = \<lparr>e_now = t, e_default_stamp = ''2026-02-01T08:00:00.000Z'',
     e_iso = (\<lambda>n. ''2026-02-01T08:00:00.000Z''), e_millis = (\<lambda>n. ''1769932800000''),
     e_random = (\<lambda>n. ''k3j9x0q2a'')\<rparr>"

definition task1 :: task where
  "task1 = \<lparr>t_id = ''task-1'', t_title = ''Align warp coils'', t_description = [],
     t_status = ''inbox'', t_assignee = None, t_category = ''general'', t_priority = ''medium'',
     t_createdAt = ''2026-01-31T10:00:00.000Z'', t_updatedAt = ''2026-01-31T10:00:00.000Z'',
     t_comments = Some [], t_logs = None\<rparr>"

definition doc1 :: tasks_document where
  "doc1 = \<lparr>version = ''1.0'', lastUpdated = ''2026-01-31T10:00:00.000Z'',
     columns = [''inbox'', ''assigned'', ''in_progress'', ''peer_review'', ''review'', ''done''],
     tasks = [task1], activity = [], agents = []\<rparr>"

text \<open>The file holds \<open>doc1\<close>, nothing is cached.\<close>

definition store1 :: store where
  "store1 = \<lparr>tasks_file = Some doc1, tasksCache_data = None, tasksCache_lastLoad = 0, writes = []\<rparr>"

text \<open>A document whose activity list has 600 records, one task with 60 log entries.\<close>

definition activity_n :: "nat \<Rightarrow> activity" where
  "activity_n n =
     \<lparr>a_id = ''act-'' @ replicate n (CHR ''i''), a_type = ''task'', a_action = ''created'',
      a_agent = ''system'', a_taskId = ''task-1'', a_taskTitle = Some ''Align warp coils'',
      a_from = None, a_to = None, a_target = None, a_timestamp = ''2026-01-31T10:00:00.000Z''\<rparr>"

definition log_n :: "nat \<Rightarrow> log_entry" where
  "log_n n =
     \<lparr>l_id = ''log-'' @ replicate n (CHR ''i''), l_type = ''update'', l_agent = ''seven'',
      l_message = ''Recalibrating'', l_timestamp = ''2026-01-31T10:00:00.000Z''\<rparr>"

definition doc600 :: tasks_document where
  "doc600 = doc1\<lparr>tasks := [task1\<lparr>t_logs := Some (map log_n [0..<60])\<rparr>],
                  activity := map activity_n [0..<600]\<rparr>"

section \<open>Snapshot aggregator: the win/loss streak\<close>

text \<open>
  \<^verbatim>\<open>a === b\<close> for two values that stand at different places of one parsed JSON text:
  equal strings, numbers or booleans, \<^verbatim>\<open>null\<close> and \<^verbatim>\<open>null\<close>, \<^verbatim>\<open>undefined\<close> and
  \<^verbatim>\<open>undefined\<close>. Two arrays or two objects of the text are different objects, and so
  are never the same value.
\<close>

fun strict_eq :: "jsval \<Rightarrow> jsval \<Rightarrow> bool" where
  "strict_eq JUndefined JUndefined = True"
| "strict_eq JNull JNull = True"
| "strict_eq (JBool a) (JBool b) = (a = b)"
| "strict_eq (JNum a) (JNum b) = (a = b)"
| "strict_eq (JStr a) (JStr b) = (a = b)"
| "strict_eq a b = False"

text \<open>
  The portfolio file \<^verbatim>\<open>portfolio.json\<close> is written by another program and is not
  validated. The model keeps the properties that decide the streak, each as the JSON type
  the code expects, or missing:
  \<^item> \<^verbatim>\<open>balance\<close> and \<^verbatim>\<open>starting_balance\<close>: a number, or \<open>None\<close> when the property is
    missing or \<^verbatim>\<open>null\<close>;
  \<^item> \<^verbatim>\<open>history\<close>: an array, or \<open>None\<close> when the property is missing or \<^verbatim>\<open>null\<close>; an
    entry of the array is a trade object, or \<open>None\<close> when the entry is \<^verbatim>\<open>null\<close>;
  \<^item> the \<^verbatim>\<open>result\<close> of a trade: any JSON value (\<^verbatim>\<open>"win"\<close>, \<^verbatim>\<open>"loss"\<close>, \<^verbatim>\<open>null\<close>, ...),
    \<open>JUndefined\<close> when the trade has no such property.
  The other properties that \<open>getQuarkData\<close> reads (\<^verbatim>\<open>trades\<close>, \<^verbatim>\<open>wins\<close>, \<^verbatim>\<open>losses\<close>,
  \<^verbatim>\<open>peak_balance\<close>, \<^verbatim>\<open>pending_trade\<close>, \<^verbatim>\<open>last_updated\<close>, and \<^verbatim>\<open>profit\<close> of a trade)
  are numbers or missing, and no statement throws on them. The streak of the snapshot is
  \<^verbatim>\<open>{ count: currentStreak, type: streakType }\<close>.
\<close>

record trade =
  tr_result :: jsval

record portfolio =
  pf_balance :: "int option"
  pf_starting_balance :: "int option"
  pf_history :: "trade option list option"

record streak =
  s_count :: nat
  s_type :: jsval

text \<open>
  \<^verbatim>\<open>
  let currentStreak = 0;
  let streakType = null;
  for (let i = history.length - 1; i >= 0; i--) {
    const result = history[i].result;
    if (streakType === null) {
      streakType = result;
      currentStreak = 1;
    } else if (result === streakType) {
      currentStreak++;
    } else {
      break;
    }
  }
  \<close>
  \<open>streak_loop\<close> is the loop: its list is what is left to visit, the trades
  \<^verbatim>\<open>history[i], ..., history[0]\<close> in that order; \<^verbatim>\<open>break\<close> returns. The test
  \<^verbatim>\<open>streakType === null\<close> holds at the start, and again after a trade whose result is
  \<^verbatim>\<open>null\<close>: the next trade then starts the count anew.
\<close>

fun streak_loop :: "trade list \<Rightarrow> nat \<Rightarrow> jsval \<Rightarrow> nat \<times> jsval" where
  "streak_loop [] currentStreak streakType = (currentStreak, streakType)"
| "streak_loop (t # ts) currentStreak streakType =
     (if streakType = JNull then streak_loop ts 1 (tr_result t)
      else if strict_eq (tr_result t) streakType then streak_loop ts (currentStreak + 1) streakType
      else (currentStreak, streakType))"

definition compute_streak :: "trade list \<Rightarrow> streak" where
  "compute_streak history =
     (case streak_loop (rev history) 0 JNull of
        (currentStreak, streakType) \<Rightarrow> \<lparr>s_count = currentStreak, s_type = streakType\<rparr>)"

text \<open>
  The \<^verbatim>\<open>streak\<close> of what \<open>getQuarkData\<close> returns.
  \<^verbatim>\<open>
  function getQuarkData() {
    try {
      if (existsSync(QUARK_PORTFOLIO)) {
        const data = JSON.parse(readFileSync(QUARK_PORTFOLIO, 'utf-8'));
        ...
        const history = data.history || [];
        let runningBalance = data.starting_balance;
        const sparkline = [runningBalance];
        history.forEach(trade => {
          runningBalance += (trade.profit || 0);
          sparkline.push(parseFloat(runningBalance.toFixed(2)));
        });
        ... the loop of the streak ...
        return {
          status: data.pending_trade ? 'TRADING' : 'MONITORING',
          balance: parseFloat(data.balance.toFixed(2)),
          startingBalance: parseFloat(data.starting_balance.toFixed(2)),
          ...
          streak: { count: currentStreak, type: streakType },
          lastUpdated: data.last_updated
        };
      }
    } catch (e) { log('ERROR', ...); }
    return { status: 'OFFLINE', balance: 0, trades: 0, sparkline: [100],
             streak: { count: 0, type: null } };
  }
  \<close>
  The argument is \<open>None\<close> when the file is not there, when reading or parsing it throws,
  or when its text is \<^verbatim>\<open>null\<close>: the function then returns its offline value. It does so
  too when a later statement of the \<^verbatim>\<open>try\<close> throws: \<^verbatim>\<open>trade.profit\<close> on an entry of the
  history that is \<^verbatim>\<open>null\<close>, and \<^verbatim>\<open>data.balance.toFixed(2)\<close> or
  \<^verbatim>\<open>data.starting_balance.toFixed(2)\<close> on a property that is missing or \<^verbatim>\<open>null\<close>.
\<close>

definition getQuarkData_streak :: "portfolio option \<Rightarrow> streak" where
  "getQuarkData_streak file =
     (case file of
        None \<Rightarrow> \<lparr>s_count = 0, s_type = JNull\<rparr>
      | Some data' \<Rightarrow>
          (let history = (case pf_history data' of None \<Rightarrow> [] | Some h \<Rightarrow> h)
           in if list_ex (\<lambda>t. t = None) history then \<lparr>s_count = 0, s_type = JNull\<rparr>
              else (let streak = compute_streak (List.map_filter (\<lambda>t. t) history)
                    in if pf_balance data' = None \<or> pf_starting_balance data' = None
                       then \<lparr>s_count = 0, s_type = JNull\<rparr>
                       else streak)))"

subsection \<open>Concrete trades and portfolios\<close>

definition win :: trade where
  "win = \<lparr>tr_result = JStr ''win''\<rparr>"

definition loss :: trade where
  "loss = \<lparr>tr_result = JStr ''loss''\<rparr>"

text \<open>A trade whose result is \<^verbatim>\<open>null\<close>.\<close>

definition void :: trade where
  "void = \<lparr>tr_result = JNull\<rparr>"

text \<open>A portfolio with both balances and the given trades.\<close>

definition portfolio_of :: "trade list \<Rightarrow> portfolio" where
  "portfolio_of history =
     \<lparr>pf_balance = Some 120, pf_starting_balance = Some 100, pf_history = Some (map Some history)\<rparr>"

section \<open>Broadcast hub\<close>

text \<open>
  \<^verbatim>\<open>
  let broadcastQueue = null;
  let broadcastTimeout = null;
  function broadcast(data) {
    broadcastQueue = data;
    if (!broadcastTimeout) {
      broadcastTimeout = setTimeout(() => {
        if (broadcastQueue) {
          const message = JSON.stringify(broadcastQueue);
          let sent = 0;
          clients.forEach(client => {
            if (client.readyState === WebSocket.OPEN) { client.send(message); sent++; }
          });
          if (sent > 0) { log('DEBUG', ...); }
          broadcastQueue = null;
        }
        broadcastTimeout = null;
      }, 100);
    }
  }
  \<close>
  A payload is the object a caller passes (\<^verbatim>\<open>{ type: 'tasks_update', data: ... }\<close>): an
  object is truthy, so \<^verbatim>\<open>if (broadcastQueue)\<close> tests for \<open>Some\<close>. The pending timer
  \<^verbatim>\<open>broadcastTimeout\<close> is kept as the time it is due, 100 ms after the call that set it.
  \<open>clients\<close> is the set of connections in its order of iteration; \<open>outbox\<close> lists the
  sends made so far, each with the client it went to and the payload whose
  \<^verbatim>\<open>JSON.stringify\<close> it carries.
\<close>

datatype ready_state = CONNECTING | OPEN | CLOSING | CLOSED

record client =
  cl_id :: nat
  readyState :: ready_state

type_synonym payload = "(string \<times> jsval) list"

record hub =
  broadcastQueue :: "payload option"
  broadcastTimeout :: "int option"
  clients :: "client list"
  outbox :: "(nat \<times> payload) list"

definition DEBOUNCE_MS :: int where
  "DEBOUNCE_MS = 100"

text \<open>\<open>broadcast data now\<close>: the call \<^verbatim>\<open>broadcast(data)\<close> made at time \<open>now\<close>.\<close>

definition broadcast :: "payload \<Rightarrow> int \<Rightarrow> hub \<Rightarrow> hub" where
  "broadcast data' now h =
     (case broadcastTimeout h of
        None \<Rightarrow> h\<lparr>broadcastQueue := Some data', broadcastTimeout := Some (now + DEBOUNCE_MS)\<rparr>
      | Some due \<Rightarrow> h\<lparr>broadcastQueue := Some data'\<rparr>)"

text \<open>The callback given to \<^verbatim>\<open>setTimeout\<close>.\<close>

definition timer_callback :: "hub \<Rightarrow> hub" where
  "timer_callback h =
     (case broadcastQueue h of
        Some message \<Rightarrow>
          h\<lparr>outbox := outbox h @ map (\<lambda>c. (cl_id c, message))
                                     (filter (\<lambda>c. readyState c = OPEN) (clients h)),
            broadcastQueue := None, broadcastTimeout := None\<rparr>
      | None \<Rightarrow> h\<lparr>broadcastTimeout := None\<rparr>)"

text \<open>
  The event loop at time \<open>now\<close>: a pending timer that is due runs its callback. A timer
  never runs before it is due.
\<close>

definition run_timers :: "int \<Rightarrow> hub \<Rightarrow> hub" where
  "run_timers now h =
     (case broadcastTimeout h of
        None \<Rightarrow> h
      | Some due \<Rightarrow> if due \<le> now then timer_callback h else h)"

text \<open>
  A run of timed \<^verbatim>\<open>broadcast\<close> calls, \<open>(time, payload)\<close> each: the timers due by the
  time of a call run before it.
\<close>

definition call_at :: "int \<times> payload \<Rightarrow> hub \<Rightarrow> hub" where
  "call_at c h = broadcast (snd c) (fst c) (run_timers (fst c) h)"

definition run_calls :: "(int \<times> payload) list \<Rightarrow> hub \<Rightarrow> hub" where
  "run_calls calls h = fold call_at calls h"

text \<open>
  When the debounce window that a call at time \<open>t\<close> falls in ends: when the pending timer
  is due, or 100 ms after \<open>t\<close> when the call sets the timer.
\<close>

definition window_end :: "hub \<Rightarrow> int \<Rightarrow> int" where
  "window_end h t = (case broadcastTimeout h of None \<Rightarrow> t + DEBOUNCE_MS | Some due \<Rightarrow> due)"

definition within_window :: "int \<Rightarrow> int \<times> payload \<Rightarrow> bool" where
  "within_window w c = (fst c < w)"

subsection \<open>A concrete hub and burst\<close>

definition hub3 :: hub where
  "hub3 = \<lparr>broadcastQueue = None, broadcastTimeout = None,
            clients = [\<lparr>cl_id = 1, readyState = OPEN\<rparr>, \<lparr>cl_id = 2, readyState = CLOSED\<rparr>,
                       \<lparr>cl_id = 3, readyState = OPEN\<rparr>],
            outbox = []\<rparr>"

definition update_n :: "int \<Rightarrow> payload" where
  "update_n n = [(''type'', JStr ''tasks_update''), (''data'', JNum n)]"

definition burst10 :: "(int \<times> payload) list" where
  "burst10 = [(1000, update_n 1), (1005, update_n 2), (1010, update_n 3), (1015, update_n 4),
              (1020, update_n 5), (1025, update_n 6), (1030, update_n 7), (1035, update_n 8),
              (1040, update_n 9), (1049, update_n 10)]"

section \<open>Message store\<close>

record message =
  m_id :: string
  m_from :: string
  m_to :: string
  m_type :: string
  m_subject :: string
  m_content :: string
  m_timestamp :: string
  m_read :: bool
  m_status :: string
  m_taskId :: "string option"

record messages_document =
  md_version :: string
  md_lastUpdated :: string
  messages :: "message list"

text \<open>
  The messages file and its read cache \<^verbatim>\<open>messagesCache = { data, lastLoad }\<close>, as for
  the tasks.
\<close>

record msg_store =
  messages_file :: "messages_document option"
  messagesCache_data :: "messages_document option"
  messagesCache_lastLoad :: int

definition MESSAGES_CACHE_TTL :: int where
  "MESSAGES_CACHE_TTL = 2000"

text \<open>
  \<^verbatim>\<open>s.toLowerCase()\<close> on the letters A to Z; a string is a list of bytes here, and every
  other byte is left as it is. This is what the built-in does on a string of ASCII
  characters, as the agent ids are (\<^verbatim>\<open>seven\<close>, \<^verbatim>\<open>geordi\<close>, ...); the built-in also
  lowers the letters outside ASCII, which this model leaves as they are.
\<close>

definition lower_char :: "char \<Rightarrow> char" where
  "lower_char c =
     (case map_of (zip ''ABCDEFGHIJKLMNOPQRSTUVWXYZ'' ''abcdefghijklmnopqrstuvwxyz'') c of
        None \<Rightarrow> c
      | Some l \<Rightarrow> l)"

definition toLowerCase :: "string \<Rightarrow> string" where
  "toLowerCase s = map lower_char s"

text \<open>
  \<^verbatim>\<open>
  function loadMessages() {
    const now = Date.now();
    if (messagesCache.data && (now - messagesCache.lastLoad) < MESSAGES_CACHE_TTL) {
      return messagesCache.data;
    }
    try {
      if (existsSync(MESSAGES_FILE)) {
        messagesCache.data = JSON.parse(readFileSync(MESSAGES_FILE, 'utf-8'));
        messagesCache.lastLoad = now;
        return messagesCache.data;
      }
    } catch (e) { log(...); }
    return { version: '1.0', lastUpdated: new Date().toISOString(), messages: [] };
  }
  \<close>
  The flag is that of \<open>loadTasks\<close>: \<open>True\<close> when the document is the cache's object.
\<close>

definition read_messages_file :: "env \<Rightarrow> msg_store \<Rightarrow> messages_document \<times> bool \<times> msg_store" where
  "read_messages_file e st =
     (case messages_file st of
        Some d \<Rightarrow> (d, True, st\<lparr>messagesCache_data := Some d, messagesCache_lastLoad := e_now e\<rparr>)
      | None \<Rightarrow>
          (\<lparr>md_version = ''1.0'', md_lastUpdated = e_default_stamp e, messages = []\<rparr>, False, st))"

definition loadMessages :: "env \<Rightarrow> msg_store \<Rightarrow> messages_document \<times> bool \<times> msg_store" where
  "loadMessages e st =
     (case messagesCache_data st of
        Some d \<Rightarrow>
          if e_now e - messagesCache_lastLoad st < MESSAGES_CACHE_TTL then (d, True, st)
          else read_messages_file e st
      | None \<Rightarrow> read_messages_file e st)"

text \<open>
  \<^verbatim>\<open>
  function saveMessages(messagesData) {
    try {
      messagesData.lastUpdated = new Date().toISOString();
      writeFileSync(MESSAGES_FILE, JSON.stringify(messagesData, null, 2));
      messagesCache.data = null;
      log('INFO', 'Messages saved successfully');
      return true;
    } catch (e) {
      log('ERROR', ...);
      return false;
    }
  }
  \<close>
  \<open>written\<close> says whether \<^verbatim>\<open>writeFileSync\<close> returns (\<open>True\<close>) or throws; \<open>stamp\<close> is
  the \<^verbatim>\<open>toISOString()\<close> of the call. The document is changed in place before the write.
\<close>

definition saveMessages ::
  "bool \<Rightarrow> bool \<Rightarrow> string \<Rightarrow> messages_document \<Rightarrow> msg_store \<Rightarrow> bool \<times> messages_document \<times> msg_store" where
  "saveMessages written shared stamp messagesData st =
     (let d = messagesData\<lparr>md_lastUpdated := stamp\<rparr>;
          st1 = (if shared then st\<lparr>messagesCache_data := Some d\<rparr> else st)
      in if written
         then (True, d, st1\<lparr>messages_file := Some d, messagesCache_data := None\<rparr>)
         else (False, d, st1))"

text \<open>
  \<^verbatim>\<open>
  function createMessage(from, to, subject, content = '', type = 'request', taskId = null) {
    const messagesData = loadMessages();
    const message = { id: generateId('msg'), from: from.toLowerCase(), to: to.toLowerCase(),
      type: type, subject: subject, content: content, timestamp: new Date().toISOString(),
      read: false, status: 'pending', taskId: taskId };
    messagesData.messages.push(message);
    saveMessages(messagesData);
    log('INFO', 'Message created:', ...);
    return message;
  }
  \<close>
  \<open>content\<close> and \<open>type\<close> are \<open>None\<close> when the argument is left out, and then take their
  defaults; \<open>taskId\<close> is \<open>None\<close> for \<^verbatim>\<open>null\<close> and for an argument left out.
  \<open>createMessage_in\<close> is the change of the loaded document, as for the tasks.
\<close>

definition new_message ::
  "string \<Rightarrow> string \<Rightarrow> string \<Rightarrow> string option \<Rightarrow> string option \<Rightarrow> string option \<Rightarrow> env \<Rightarrow> message" where
  "new_message from' to' subject content type' taskId e =
     \<lparr>m_id = generateId ''msg'' e 0, m_from = toLowerCase from', m_to = toLowerCase to',
      m_type = (case type' of None \<Rightarrow> ''request'' | Some t \<Rightarrow> t),
      m_subject = subject,
      m_content = (case content of None \<Rightarrow> [] | Some c \<Rightarrow> c),
      m_timestamp = e_iso e 0, m_read = False, m_status = ''pending'', m_taskId = taskId\<rparr>"

definition createMessage_in ::
  "string \<Rightarrow> string \<Rightarrow> string \<Rightarrow> string option \<Rightarrow> string option \<Rightarrow> string option \<Rightarrow> env
     \<Rightarrow> messages_document \<Rightarrow> message \<times> messages_document" where
  "createMessage_in from' to' subject content type' taskId e messagesData =
     (let message = new_message from' to' subject content type' taskId e
      in (message, messagesData\<lparr>messages := messages messagesData @ [message]\<rparr>))"

definition createMessage ::
  "string \<Rightarrow> string \<Rightarrow> string \<Rightarrow> string option \<Rightarrow> string option \<Rightarrow> string option \<Rightarrow> env \<Rightarrow> bool
     \<Rightarrow> msg_store \<Rightarrow> message \<times> msg_store" where
  "createMessage from' to' subject content type' taskId e written st =
     (case loadMessages e st of
        (messagesData, shared, st1) \<Rightarrow>
          (case createMessage_in from' to' subject content type' taskId e messagesData of
             (message, d) \<Rightarrow>
               (case saveMessages written shared (e_iso e 1) d st1 of
                  (ok, d', st2) \<Rightarrow> (message, st2))))"

subsection \<open>A concrete messages store\<close>

definition msg1 :: message where
  "msg1 = \<lparr>m_id = ''msg-1'', m_from = ''seven'', m_to = ''geordi'', m_type = ''request'',
     m_subject = ''Warp core'', m_content = ''Report status'', m_timestamp = ''2026-01-31T09:00:00.000Z'',
     m_read = True, m_status = ''completed'', m_taskId = None\<rparr>"

definition msg_store1 :: msg_store where
  "msg_store1 =
     \<lparr>messages_file = Some \<lparr>md_version = ''1.0'', md_lastUpdated = ''2026-01-31T09:00:00.000Z'',
                              messages = [msg1]\<rparr>,
      messagesCache_data = None, messagesCache_lastLoad = 0\<rparr>"

section \<open>Properties of the cache layer\<close>

lemma getCached_returns_entry:
  assumes "getCached key f t1 st = (Inr v, st1)"
  shows "\<exists>e. entries st1 key = Some e \<and> data e = v"
  using assms unfolding getCached_def
  by (auto simp: Let_def split: option.splits if_splits prod.splits sum.splits)

lemma getCached_fetches_le:
  assumes "getCached key f t1 st = (r, st1)"
  shows "fetches st1 \<le> Suc (fetches st)"
  using assms unfolding getCached_def
  by (auto simp: Let_def split: option.splits if_splits prod.splits sum.splits)

lemma getCached_recomputed:
  assumes "getCached key f t1 st = (Inr v, st1)" and "fetches st1 = Suc (fetches st)"
  shows "lastUpdate_of st1 key = t1 \<and> ttl_of st1 key = ttl_of st key"
  using assms unfolding getCached_def lastUpdate_of_def ttl_of_def
  by (auto simp: Let_def split: option.splits if_splits prod.splits sum.splits)

text \<open>\<open>invalidateCache\<close> changes the entries of its keys only.\<close>

lemma invalidate_key_other:
  "k \<noteq> key \<Longrightarrow> entries (invalidate_key k st) key = entries st key"
  by (simp add: invalidate_key_def split: option.splits)

lemma invalidateCache_other:
  "key \<notin> set keys \<Longrightarrow> entries (invalidateCache keys st) key = entries st key"
  unfolding invalidateCache_def
  by (induction keys arbitrary: st) (auto simp: invalidate_key_other)

text \<open>
  Claim C2, as amended. The claim as stated fails: \<^verbatim>\<open>entry.data && ...\<close> never serves a
  falsy value from the cache, so a compute function that returns \<^verbatim>\<open>null\<close> runs on every
  call (the counterexample below). What holds: when a \<open>getCached\<close> call for a key returns a
  truthy value \<open>v\<close>, and a second call for that key comes less than the entry's TTL after
  the entry's last update, the entry not touched in between (no \<open>invalidateCache\<close> of the
  key), then the second call returns the same \<open>v\<close> and does not invoke its compute
  function, and the first call invoked its own at most once. When the first call did
  recompute, the last update is the time \<open>t1\<close> of that call and the TTL is unchanged: the
  second call is then any call less than TTL ms after the first.
\<close>

theorem getCached_fresh_truthy_hit:
  assumes "getCached key f t1 st = (Inr v, st1)"
      and "truthy v"
      and "entries st1' key = entries st1 key"
      and "t2 - lastUpdate_of st1 key < ttl_of st1 key"
  shows "getCached key g t2 st1' = (Inr v, st1')
       \<and> fetches st1 \<le> Suc (fetches st)
       \<and> (fetches st1 = Suc (fetches st) \<longrightarrow>
            lastUpdate_of st1 key = t1 \<and> ttl_of st1 key = ttl_of st key)"
proof -
  obtain e where e: "entries st1 key = Some e" "data e = v"
    using getCached_returns_entry[OF assms(1)] by blast
  have hit: "getCached key g t2 st1' = (Inr v, st1')"
    using assms(2,3,4) e by (simp add: getCached_def lastUpdate_of_def ttl_of_def)
  show ?thesis
    using hit getCached_fetches_le[OF assms(1)] getCached_recomputed[OF assms(1)] by blast
qed

theorem getCached_fresh_truthy_hit_witness:
  "getCached ''weather'' fetch_weather 1000 empty_cache =
     (Inr (JObj [(''temp'', JNum 12)]), snd (getCached ''weather'' fetch_weather 1000 empty_cache))
   \<and> truthy (JObj [(''temp'', JNum 12)])
   \<and> 30999 - lastUpdate_of (snd (getCached ''weather'' fetch_weather 1000 empty_cache)) ''weather''
       < ttl_of (snd (getCached ''weather'' fetch_weather 1000 empty_cache)) ''weather''
   \<and> fst (getCached ''weather'' fetch_throws 30999
          (invalidateCache [''quarkData'', ''bridgeData'']
             (snd (getCached ''weather'' fetch_weather 1000 empty_cache))))
       = Inr (JObj [(''temp'', JNum 12)])
   \<and> fetches (snd (getCached ''weather'' fetch_throws 30999
                 (invalidateCache [''quarkData'', ''bridgeData'']
                    (snd (getCached ''weather'' fetch_weather 1000 empty_cache))))) = 1"
proof -
  let ?st1 = "snd (getCached ''weather'' fetch_weather 1000 empty_cache)"
  let ?st1' = "invalidateCache [''quarkData'', ''bridgeData''] ?st1"
  let ?v = "JObj [(''temp'', JNum 12)]"
  have h1: "getCached ''weather'' fetch_weather 1000 empty_cache = (Inr ?v, ?st1)"
    by (simp add: getCached_def fetch_weather_def empty_cache_def)
  have h2: "truthy ?v" by simp
  have h3: "entries ?st1' ''weather'' = entries ?st1 ''weather''"
    by (rule invalidateCache_other) simp
  have h4: "30999 - lastUpdate_of ?st1 ''weather'' < ttl_of ?st1 ''weather''"
    by (simp add: getCached_def fetch_weather_def empty_cache_def lastUpdate_of_def ttl_of_def)
  have f1: "fetches ?st1' = 1"
    by (simp add: getCached_def fetch_weather_def empty_cache_def invalidateCache_def
        invalidate_key_def)
  from getCached_fresh_truthy_hit[OF h1 h2 h3 h4, of fetch_throws]
  have h5: "getCached ''weather'' fetch_throws 30999 ?st1' = (Inr ?v, ?st1')" by blast
  have c4: "fst (getCached ''weather'' fetch_throws 30999 ?st1') = Inr ?v"
    by (simp only: h5 fst_conv)
  have c5: "fetches (snd (getCached ''weather'' fetch_throws 30999 ?st1')) = 1"
    by (simp only: h5 snd_conv f1)
  show ?thesis using h1 h2 h4 c4 c5 by (intro conjI)
qed

text \<open>
  The claim of C2 as stated is false: with a compute function that returns \<^verbatim>\<open>null\<close>, two
  calls one millisecond apart (the TTL is 30000 ms) invoke it twice.
\<close>

theorem getCached_null_recomputed_counterexample:
  "fetches (snd (getCached ''weather'' fetch_null 1001
              (snd (getCached ''weather'' fetch_null 1000 empty_cache)))) = 2
   \<and> ttl_of (snd (getCached ''weather'' fetch_null 1000 empty_cache)) ''weather'' = 30000"
  by (simp add: getCached_def fetch_null_def empty_cache_def ttl_of_def)

text \<open>
  Claim C3, as amended. \<open>getCached\<close> has no handler around \<^verbatim>\<open>fetchFn()\<close>: a compute
  function that throws on an expired entry makes \<open>getCached\<close> throw the same exception to
  its caller (the previous value is not returned). The cache is not poisoned: every entry,
  the expired one with its previous value and time included, is left as it was.
\<close>

theorem getCached_throw_propagates:
  assumes "entries st key = Some e"
      and "ttl e \<le> now - lastUpdate e"
      and "fetchFn (world st) = (Inl x, w)"
  shows "fst (getCached key fetchFn now st) = Inl x
       \<and> entries (snd (getCached key fetchFn now st)) = entries st"
  using assms by (simp add: getCached_def)

theorem getCached_throw_propagates_witness:
  "entries stale_weather ''weather'' =
      Some \<lparr>data = JObj [(''temp'', JNum 9)], lastUpdate = 1000, ttl = 30000\<rparr>
   \<and> (30000::int) \<le> 40000 - 1000
   \<and> fetch_throws (world stale_weather) = (Inl (JsError ''ETIMEDOUT''), ())
   \<and> fst (getCached ''weather'' fetch_throws 40000 stale_weather) = Inl (JsError ''ETIMEDOUT'')
   \<and> entries (snd (getCached ''weather'' fetch_throws 40000 stale_weather)) = entries stale_weather"
proof -
  have h1: "entries stale_weather ''weather'' =
      Some \<lparr>data = JObj [(''temp'', JNum 9)], lastUpdate = 1000, ttl = 30000\<rparr>"
    by (simp add: stale_weather_def)
  have h2: "ttl \<lparr>data = JObj [(''temp'', JNum 9)], lastUpdate = 1000, ttl = 30000\<rparr>
              \<le> 40000 - lastUpdate \<lparr>data = JObj [(''temp'', JNum 9)], lastUpdate = 1000, ttl = 30000\<rparr>"
    by simp
  have h3: "fetch_throws (world stale_weather) = (Inl (JsError ''ETIMEDOUT''), ())"
    by (simp add: fetch_throws_def)
  from getCached_throw_propagates[of stale_weather "''weather''" _ 40000 fetch_throws, OF h1 h2 h3] h1 h3
  show ?thesis by simp
qed

text \<open>
  The claim of C3 as stated is false: on the expired entry of \<open>stale_weather\<close> the call
  does not return the previous value, it throws what the compute function threw.
\<close>

theorem getCached_throw_counterexample:
  "fst (getCached ''weather'' fetch_throws 40000 stale_weather) = Inl (JsError ''ETIMEDOUT'')"
  by (simp add: getCached_def fetch_throws_def stale_weather_def)

section \<open>Properties of the task store\<close>

lemma findIndex_None_iff: "findIndex p xs = None \<longleftrightarrow> (\<forall>x\<in>set xs. \<not> p x)"
  by (induction xs) (auto split: option.splits)

lemma findIndex_Some_D: "findIndex p xs = Some i \<Longrightarrow> i < length xs \<and> p (xs ! i)"
  by (induction xs arbitrary: i) (auto split: option.splits if_splits)

lemma findIndex_map: "findIndex (\<lambda>t. f t = k) xs = findIndex (\<lambda>x. x = k) (map f xs)"
  by (induction xs) auto

lemma saveTasks_refused:
  assumes "wr \<noteq> WriteOk"
  shows "fst (saveTasks wr shared d st) = False"
    and "tasks_file (snd (snd (saveTasks wr shared d st))) = tasks_file st"
  using assms by (cases wr; simp add: saveTasks_def safeWriteTasks_def in_place_def Let_def)+

lemma saveTasks_doc: "fst (snd (saveTasks wr shared d st)) = snd (pruneTaskData d)"
  by (cases wr; simp add: saveTasks_def Let_def)

lemma loadTasks_file: "tasks_file (snd (snd (loadTasks e st))) = tasks_file st"
  by (auto simp: loadTasks_def read_file_def split: option.splits)

lemma loadTasks_writes: "writes (snd (snd (loadTasks e st))) = writes st"
  by (auto simp: loadTasks_def read_file_def split: option.splits)

lemma loadTasks_again: "fst (loadTasks e (snd (snd (loadTasks e st)))) = fst (loadTasks e st)"
  by (auto simp: loadTasks_def read_file_def TASKS_CACHE_TTL_def split: option.splits)

lemma loadTasks_expired:
  assumes "TASKS_CACHE_TTL \<le> e_now e - tasksCache_lastLoad st"
  shows "fst (loadTasks e st) =
           (case tasks_file st of Some d \<Rightarrow> d | None \<Rightarrow> getDefaultTasks (e_default_stamp e))"
  using assms by (auto simp: loadTasks_def read_file_def split: option.splits)

lemma loadTasks_file_eq:
  assumes "loadTasks e st = (d, sh, st1)"
  shows "tasks_file st1 = tasks_file st"
  using loadTasks_file[of e st] assms by simp

lemma updateTask_refused:
  assumes "wr \<noteq> WriteOk"
  shows "tasks_file (snd (updateTask taskId updates e wr st)) = tasks_file st
       \<and> fst (updateTask taskId updates e wr st) = fst (updateTask taskId updates e WriteOk st)"
proof -
  obtain d sh st1 where l: "loadTasks e st = (d, sh, st1)" by (cases "loadTasks e st") auto
  show ?thesis
    using l loadTasks_file_eq[OF l] saveTasks_refused(2)[OF assms]
    by (cases "updateTask_in taskId updates e d") (auto simp: updateTask_def case_prod_beta saveTasks_doc)
qed

lemma deleteTask_refused:
  assumes "wr \<noteq> WriteOk"
  shows "tasks_file (snd (deleteTask taskId e wr st)) = tasks_file st
       \<and> fst (deleteTask taskId e wr st) = fst (deleteTask taskId e WriteOk st)"
proof -
  obtain d sh st1 where l: "loadTasks e st = (d, sh, st1)" by (cases "loadTasks e st") auto
  show ?thesis
    using l loadTasks_file_eq[OF l] saveTasks_refused(2)[OF assms]
    by (cases "deleteTask_in taskId e d") (auto simp: deleteTask_def case_prod_beta)
qed

lemma addTaskComment_refused:
  assumes "wr \<noteq> WriteOk"
  shows "tasks_file (snd (addTaskComment taskId author text e wr st)) = tasks_file st
       \<and> fst (addTaskComment taskId author text e wr st)
           = fst (addTaskComment taskId author text e WriteOk st)"
proof -
  obtain d sh st1 where l: "loadTasks e st = (d, sh, st1)" by (cases "loadTasks e st") auto
  show ?thesis
    using l loadTasks_file_eq[OF l] saveTasks_refused(2)[OF assms]
    by (cases "addTaskComment_in taskId author text e d") (auto simp: addTaskComment_def case_prod_beta)
qed

lemma createTask_refused:
  assumes "wr \<noteq> WriteOk"
  shows "tasks_file (snd (createTask title description assignee category priority e wr st)) = tasks_file st
       \<and> fst (createTask title description assignee category priority e wr st)
           = fst (createTask title description assignee category priority e WriteOk st)"
proof -
  obtain d sh st1 where l: "loadTasks e st = (d, sh, st1)" by (cases "loadTasks e st") auto
  show ?thesis
    using l loadTasks_file_eq[OF l] saveTasks_refused(2)[OF assms]
    by (auto simp: createTask_def case_prod_beta)
qed

text \<open>
  Claim C1, as amended. The claim as stated fails: \<open>updateTask\<close> does not look at what
  \<^verbatim>\<open>saveTasks\<close> returns, and no operation of the store does (the counterexample below).
  What holds when the safe writer refuses or fails (\<open>wr \<noteq> WriteOk\<close>): \<open>saveTasks\<close> returns
  \<^verbatim>\<open>false\<close> and leaves the tasks file as it was; so do \<open>updateTask\<close>, \<open>deleteTask\<close>,
  \<open>addTaskComment\<close> and \<open>createTask\<close>, and each of them returns to its caller what it
  returns after a successful write; a \<open>loadTasks\<close> that comes when the read cache has
  expired returns the document of the unchanged file (the default document when there is
  no file).
\<close>

theorem refused_write_not_durable:
  assumes "wr \<noteq> WriteOk"
  shows "fst (saveTasks wr shared d st) = False
     \<and> tasks_file (snd (snd (saveTasks wr shared d st))) = tasks_file st
     \<and> tasks_file (snd (updateTask taskId updates e wr st)) = tasks_file st
     \<and> fst (updateTask taskId updates e wr st) = fst (updateTask taskId updates e WriteOk st)
     \<and> tasks_file (snd (deleteTask taskId e wr st)) = tasks_file st
     \<and> fst (deleteTask taskId e wr st) = fst (deleteTask taskId e WriteOk st)
     \<and> tasks_file (snd (addTaskComment taskId author text e wr st)) = tasks_file st
     \<and> fst (addTaskComment taskId author text e wr st)
          = fst (addTaskComment taskId author text e WriteOk st)
     \<and> tasks_file (snd (createTask title description assignee category priority e wr st)) = tasks_file st
     \<and> fst (createTask title description assignee category priority e wr st)
          = fst (createTask title description assignee category priority e WriteOk st)
     \<and> (TASKS_CACHE_TTL \<le> e_now e' - tasksCache_lastLoad (snd (updateTask taskId updates e wr st)) \<longrightarrow>
          fst (loadTasks e' (snd (updateTask taskId updates e wr st))) =
            (case tasks_file st of Some d0 \<Rightarrow> d0 | None \<Rightarrow> getDefaultTasks (e_default_stamp e')))"
proof -
  have exp: "TASKS_CACHE_TTL \<le> e_now e' - tasksCache_lastLoad (snd (updateTask taskId updates e wr st)) \<longrightarrow>
          fst (loadTasks e' (snd (updateTask taskId updates e wr st))) =
            (case tasks_file st of Some d0 \<Rightarrow> d0 | None \<Rightarrow> getDefaultTasks (e_default_stamp e'))"
    using loadTasks_expired[of e' "snd (updateTask taskId updates e wr st)"]
      updateTask_refused[OF assms, of taskId updates e st]
    by simp
  show ?thesis
    using saveTasks_refused[OF assms, of shared d st]
      updateTask_refused[OF assms, of taskId updates e st]
      deleteTask_refused[OF assms, of taskId e st]
      addTaskComment_refused[OF assms, of taskId author "text" e st]
      createTask_refused[OF assms, of title description assignee category priority e st]
      exp
    by (intro conjI) blast+
qed

theorem refused_write_not_durable_witness:
  "WriteBlocked \<noteq> WriteOk
   \<and> fst (saveTasks WriteBlocked True doc1 store1) = False
   \<and> tasks_file (snd (updateTask ''task-1'' (status_only ''done'') (env_at 5000) WriteBlocked store1)) = Some doc1
   \<and> fst (updateTask ''task-1'' (status_only ''done'') (env_at 5000) WriteBlocked store1)
       = fst (updateTask ''task-1'' (status_only ''done'') (env_at 5000) WriteOk store1)
   \<and> TASKS_CACHE_TTL \<le> e_now (env_at 7000) - tasksCache_lastLoad
         (snd (updateTask ''task-1'' (status_only ''done'') (env_at 5000) WriteBlocked store1))
   \<and> fst (loadTasks (env_at 7000)
         (snd (updateTask ''task-1'' (status_only ''done'') (env_at 5000) WriteBlocked store1))) = doc1"
proof -
  have h: "WriteBlocked \<noteq> WriteOk" by simp
  have t: "TASKS_CACHE_TTL \<le> e_now (env_at 7000) - tasksCache_lastLoad
         (snd (updateTask ''task-1'' (status_only ''done'') (env_at 5000) WriteBlocked store1))"
    by (simp add: updateTask_def updateTask_in_def loadTasks_def read_file_def saveTasks_def
        safeWriteTasks_def in_place_def truthy_str_def TASKS_CACHE_TTL_def Let_def
        store1_def doc1_def task1_def status_only_def env_at_def)
  have s: "tasks_file store1 = Some doc1" by (simp add: store1_def)
  from refused_write_not_durable[OF h, of True doc1 store1 "''task-1''" "status_only ''done''"
      "env_at 5000" _ _ _ _ _ _ _ "env_at 7000"] t s h
  show ?thesis by simp
qed

text \<open>
  The claim of C1 as stated is false: the file holds a task in \<^verbatim>\<open>inbox\<close>, the writer
  blocks the write, and \<open>updateTask\<close> returns the task with status \<^verbatim>\<open>done\<close> (not
  \<^verbatim>\<open>null\<close>, no failure); a \<open>loadTasks\<close> half a second later returns the document
  with the task \<^verbatim>\<open>done\<close>, where without the attempt it returns it in \<^verbatim>\<open>inbox\<close>.
\<close>

theorem updateTask_blocked_write_counterexample:
  "map_option t_status
      (fst (updateTask ''task-1'' (status_only ''done'') (env_at 5000) WriteBlocked store1)) = Some ''done''
   \<and> map t_status (tasks (fst (loadTasks (env_at 5500)
        (snd (updateTask ''task-1'' (status_only ''done'') (env_at 5000) WriteBlocked store1))))) = [''done'']
   \<and> map t_status (tasks (fst (loadTasks (env_at 5500) store1))) = [''inbox'']"
  by (simp add: updateTask_def updateTask_in_def loadTasks_def read_file_def saveTasks_def
      pruneTaskData_def prune_task_def safeWriteTasks_def in_place_def merge_updates_def
      truthy_str_def TASKS_CACHE_TTL_def MAX_ACTIVITY_ENTRIES_def Let_def
      store1_def doc1_def task1_def status_only_def env_at_def)

text \<open>
  Claim C4. When no task of the loaded document has the id, \<open>updateTask\<close>, \<open>deleteTask\<close>
  and \<open>addTaskComment\<close> each return \<^verbatim>\<open>null\<close>, and the store after them is the store
  after \<open>loadTasks\<close> alone: the file is the same, nothing was handed to the safe writer,
  and loading again gives the very same document (no task, activity or time changed).
\<close>

theorem not_found_leaves_document:
  assumes "taskId \<notin> t_id ` set (tasks (fst (loadTasks e st)))"
  shows "updateTask taskId updates e wr st = (None, snd (snd (loadTasks e st)))
       \<and> deleteTask taskId e wr st = (None, snd (snd (loadTasks e st)))
       \<and> addTaskComment taskId author text e wr st = (None, snd (snd (loadTasks e st)))
       \<and> tasks_file (snd (snd (loadTasks e st))) = tasks_file st
       \<and> writes (snd (snd (loadTasks e st))) = writes st
       \<and> fst (loadTasks e (snd (snd (loadTasks e st)))) = fst (loadTasks e st)"
proof -
  obtain d sh st1 where l: "loadTasks e st = (d, sh, st1)" by (cases "loadTasks e st") auto
  have nf: "findIndex (\<lambda>t. t_id t = taskId) (tasks d) = None"
    using assms l by (auto simp: findIndex_None_iff)
  have a: "updateTask taskId updates e wr st = (None, st1)"
    using l nf by (simp add: updateTask_def updateTask_in_def)
  have b: "deleteTask taskId e wr st = (None, st1)"
    using l nf by (simp add: deleteTask_def deleteTask_in_def)
  have c: "addTaskComment taskId author text e wr st = (None, st1)"
    using l nf by (simp add: addTaskComment_def addTaskComment_in_def)
  show ?thesis
    using l a b c loadTasks_file[of e st] loadTasks_writes[of e st] loadTasks_again[of e st]
    by simp
qed

theorem not_found_leaves_document_witness:
  "''task-9'' \<notin> t_id ` set (tasks (fst (loadTasks (env_at 5000) store1)))
   \<and> fst (updateTask ''task-9'' (status_only ''done'') (env_at 5000) WriteOk store1) = None
   \<and> fst (deleteTask ''task-9'' (env_at 5000) WriteOk store1) = None
   \<and> fst (addTaskComment ''task-9'' ''seven'' ''Status?'' (env_at 5000) WriteOk store1) = None
   \<and> tasks_file (snd (updateTask ''task-9'' (status_only ''done'') (env_at 5000) WriteOk store1)) = Some doc1
   \<and> writes (snd (deleteTask ''task-9'' (env_at 5000) WriteOk store1)) = []
   \<and> fst (loadTasks (env_at 5000)
        (snd (addTaskComment ''task-9'' ''seven'' ''Status?'' (env_at 5000) WriteOk store1))) = doc1"
proof -
  have h: "''task-9'' \<notin> t_id ` set (tasks (fst (loadTasks (env_at 5000) store1)))"
    by (simp add: loadTasks_def read_file_def store1_def doc1_def task1_def env_at_def)
  have l: "fst (loadTasks (env_at 5000) store1) = doc1"
    by (simp add: loadTasks_def read_file_def store1_def doc1_def task1_def env_at_def)
  have s: "tasks_file store1 = Some doc1" "writes store1 = []" by (simp_all add: store1_def)
  from not_found_leaves_document[OF h, of "status_only ''done''" WriteOk "''seven''" "''Status?''"] h l s
  show ?thesis by simp
qed

lemma slice_last_slice_last_append:
  "slice_last n (slice_last n xs @ ys) = slice_last n (xs @ ys)"
  by (cases "length xs \<le> n") (auto simp: slice_last_def add.commute)

lemma activity_prune: "activity (snd (pruneTaskData d)) = slice_last MAX_ACTIVITY_ENTRIES (activity d)"
  by (simp add: pruneTaskData_def Let_def slice_last_def)

lemma tasks_prune: "tasks (snd (pruneTaskData d)) = map prune_task (tasks d)"
  by (simp add: pruneTaskData_def Let_def)

lemma t_id_prune_task [simp]: "t_id (prune_task t) = t_id t"
  by (simp add: prune_task_def split: option.splits)

lemma t_status_prune_task [simp]: "t_status (prune_task t) = t_status t"
  by (simp add: prune_task_def split: option.splits)

lemma updateTask_in_Some:
  assumes "findIndex (\<lambda>t. t_id t = taskId) (tasks d) = Some i"
  shows "updateTask_in taskId updates e d =
     Some (i, d\<lparr>tasks := (tasks d)[i := merge_updates (tasks d ! i) updates (e_iso e 0)],
                activity := activity d @
                  (case u_status updates of
                     None \<Rightarrow> []
                   | Some s \<Rightarrow>
                       if s \<noteq> [] \<and> s \<noteq> t_status (tasks d ! i)
                       then [moved_activity taskId (tasks d ! i)
                               (merge_updates (tasks d ! i) updates (e_iso e 0)) s e]
                       else [])\<rparr>)"
  using assms by (simp add: updateTask_in_def Let_def truthy_str_def split: option.splits)

lemma loadTasks_shared:
  assumes "loadTasks e st = (d, sh, st0)" and "tasks d \<noteq> []"
  shows "sh"
  using assms
  by (auto simp: loadTasks_def read_file_def getDefaultTasks_def split: option.splits if_splits)

lemma saveTasks_ok:
  "saveTasks WriteOk True d st =
     (True, snd (pruneTaskData d),
      st\<lparr>tasksCache_data := None, tasks_file := Some (snd (pruneTaskData d)),
         writes := writes st @ [snd (pruneTaskData d)]\<rparr>)"
  by (simp add: saveTasks_def safeWriteTasks_def in_place_def Let_def)

lemma loadTasks_uncached:
  assumes "tasksCache_data st = None" and "tasks_file st = Some d"
  shows "loadTasks e st = (d, True, st\<lparr>tasksCache_data := Some d, tasksCache_lastLoad := e_now e\<rparr>)"
  using assms by (simp add: loadTasks_def read_file_def)

text \<open>
  A task in \<^verbatim>\<open>inbox\<close> patched to \<^verbatim>\<open>done\<close> and back, both writes successful: the
  file then holds the activity list it had, followed by the two records, pruned.
\<close>

lemma two_patches:
  assumes load: "loadTasks e1 st = (d, sh, st0)"
      and idx: "findIndex (\<lambda>t. t_id t = taskId) (tasks d) = Some i"
      and inbox: "t_status (tasks d ! i) = ''inbox''"
  shows "\<exists>m1 m2 d2.
           tasks_file (snd (updateTask taskId (status_only ''inbox'') e2 WriteOk
                        (snd (updateTask taskId (status_only ''done'') e1 WriteOk st)))) = Some d2
         \<and> activity d2 = slice_last MAX_ACTIVITY_ENTRIES (activity d @ [m1, m2])
         \<and> a_action m1 = ''moved'' \<and> a_from m1 = Some ''inbox'' \<and> a_to m1 = Some ''done''
         \<and> a_taskId m1 = taskId
         \<and> a_action m2 = ''moved'' \<and> a_from m2 = Some ''done'' \<and> a_to m2 = Some ''inbox''
         \<and> a_taskId m2 = taskId"
proof -
  let ?old = "tasks d ! i"
  let ?u1 = "merge_updates ?old (status_only ''done'') (e_iso e1 0)"
  let ?m1 = "moved_activity taskId ?old ?u1 ''done'' e1"
  let ?dA = "d\<lparr>tasks := (tasks d)[i := ?u1], activity := activity d @ [?m1]\<rparr>"
  let ?pA = "snd (pruneTaskData ?dA)"
  have ilen: "i < length (tasks d)" and iid: "t_id ?old = taskId"
    using findIndex_Some_D[OF idx] by auto
  have ne: "tasks d \<noteq> []" using ilen by auto
  have sh: "sh" using loadTasks_shared[OF load ne] .
  have in1: "updateTask_in taskId (status_only ''done'') e1 d = Some (i, ?dA)"
    using updateTask_in_Some[OF idx, of "status_only ''done''" e1] inbox
    by (simp add: status_only_def)
  let ?st1 = "st0\<lparr>tasksCache_data := None, tasks_file := Some ?pA, writes := writes st0 @ [?pA]\<rparr>"
  have up1: "snd (updateTask taskId (status_only ''done'') e1 WriteOk st) = ?st1"
    using load in1 sh by (simp add: updateTask_def saveTasks_ok)
  have load2: "loadTasks e2 ?st1 = (?pA, True, ?st1\<lparr>tasksCache_data := Some ?pA, tasksCache_lastLoad := e_now e2\<rparr>)"
    by (rule loadTasks_uncached) simp_all
  have ids: "map t_id (tasks ?pA) = map t_id (tasks d)"
    using ilen iid
    by (simp add: tasks_prune map_update merge_updates_def status_only_def list_update_same_conv comp_def)
  have idx2: "findIndex (\<lambda>t. t_id t = taskId) (tasks ?pA) = Some i"
    using idx ids by (simp add: findIndex_map[of t_id taskId])
  let ?old2 = "tasks ?pA ! i"
  have st2: "t_status ?old2 = ''done''"
    using ilen by (simp add: tasks_prune merge_updates_def status_only_def)
  let ?u2 = "merge_updates ?old2 (status_only ''inbox'') (e_iso e2 0)"
  let ?m2 = "moved_activity taskId ?old2 ?u2 ''inbox'' e2"
  let ?dB = "?pA\<lparr>tasks := (tasks ?pA)[i := ?u2], activity := activity ?pA @ [?m2]\<rparr>"
  have in2: "updateTask_in taskId (status_only ''inbox'') e2 ?pA = Some (i, ?dB)"
    using updateTask_in_Some[OF idx2, of "status_only ''inbox''" e2] st2
    by (simp add: status_only_def)
  have up2: "tasks_file (snd (updateTask taskId (status_only ''inbox'') e2 WriteOk ?st1))
               = Some (snd (pruneTaskData ?dB))"
    using load2 in2 by (simp add: updateTask_def saveTasks_ok)
  have act: "activity (snd (pruneTaskData ?dB)) = slice_last MAX_ACTIVITY_ENTRIES (activity d @ [?m1, ?m2])"
    using slice_last_slice_last_append[of MAX_ACTIVITY_ENTRIES "activity d @ [?m1]" "[?m2]"]
    by (simp add: activity_prune)
  have f1: "a_action ?m1 = ''moved'' \<and> a_from ?m1 = Some ''inbox'' \<and> a_to ?m1 = Some ''done'' \<and> a_taskId ?m1 = taskId"
    using inbox by (simp add: moved_activity_def)
  have f2: "a_action ?m2 = ''moved'' \<and> a_from ?m2 = Some ''done'' \<and> a_to ?m2 = Some ''inbox'' \<and> a_taskId ?m2 = taskId"
    using st2 by (simp add: moved_activity_def)
  show ?thesis using up1 up2 act f1 f2 by (metis (no_types, lifting))
qed

text \<open>
  Claim C5, as amended. The claim as stated fails: the guard is
  \<^verbatim>\<open>updates.status && updates.status !== oldTask.status\<close>, and an empty status is falsy:
  it is merged into the task, which then has a status different from its prior one, and no
  record is appended (the counterexample below). What holds, for a task found at index
  \<open>i\<close> of the loaded document: \<open>updateTask\<close> appends to the activity list exactly one
  record when the updates carry a non-empty status different from the prior status of the
  task, and nothing otherwise; the record has action \<^verbatim>\<open>moved\<close>, \<^verbatim>\<open>from\<close> the prior
  status and \<^verbatim>\<open>to\<close> the new one; the document handed to the safe writer is that
  document, pruned. Consequently a task in \<^verbatim>\<open>inbox\<close> patched to \<^verbatim>\<open>done\<close> and then
  back to \<^verbatim>\<open>inbox\<close>, both writes successful, leaves in the file the prior activity list
  followed by exactly two \<^verbatim>\<open>moved\<close> records, from \<^verbatim>\<open>inbox\<close> to \<^verbatim>\<open>done\<close> and from
  \<^verbatim>\<open>done\<close> to \<^verbatim>\<open>inbox\<close> (cut to the 500 most recent entries).
\<close>

theorem updateTask_moved_activity:
  assumes load: "loadTasks e st = (d, sh, st0)"
      and idx: "findIndex (\<lambda>t. t_id t = taskId) (tasks d) = Some i"
  shows "(\<exists>d'. updateTask_in taskId updates e d = Some (i, d')
            \<and> activity d' = activity d @
                 (case u_status updates of
                    None \<Rightarrow> []
                  | Some s \<Rightarrow>
                      if s \<noteq> [] \<and> s \<noteq> t_status (tasks d ! i)
                      then [moved_activity taskId (tasks d ! i)
                              (merge_updates (tasks d ! i) updates (e_iso e 0)) s e]
                      else [])
            \<and> writes (snd (updateTask taskId updates e wr st)) = writes st @ [snd (pruneTaskData d')])
       \<and> a_action (moved_activity taskId old new s e) = ''moved''
       \<and> a_from (moved_activity taskId old new s e) = Some (t_status old)
       \<and> a_to (moved_activity taskId old new s e) = Some s
       \<and> (t_status (tasks d ! i) = ''inbox'' \<longrightarrow>
            (\<exists>m1 m2 d2.
               tasks_file (snd (updateTask taskId (status_only ''inbox'') e2 WriteOk
                            (snd (updateTask taskId (status_only ''done'') e WriteOk st)))) = Some d2
             \<and> activity d2 = slice_last MAX_ACTIVITY_ENTRIES (activity d @ [m1, m2])
             \<and> a_action m1 = ''moved'' \<and> a_from m1 = Some ''inbox'' \<and> a_to m1 = Some ''done''
             \<and> a_taskId m1 = taskId
             \<and> a_action m2 = ''moved'' \<and> a_from m2 = Some ''done'' \<and> a_to m2 = Some ''inbox''
             \<and> a_taskId m2 = taskId))"
proof -
  obtain d' where d': "updateTask_in taskId updates e d = Some (i, d')"
    and act: "activity d' = activity d @
                 (case u_status updates of
                    None \<Rightarrow> []
                  | Some s \<Rightarrow>
                      if s \<noteq> [] \<and> s \<noteq> t_status (tasks d ! i)
                      then [moved_activity taskId (tasks d ! i)
                              (merge_updates (tasks d ! i) updates (e_iso e 0)) s e]
                      else [])"
    using updateTask_in_Some[OF idx, of updates e] by simp
  have w0: "writes st0 = writes st" using loadTasks_writes[of e st] load by simp
  have wr: "writes (snd (updateTask taskId updates e wr st)) = writes st @ [snd (pruneTaskData d')]"
    using load d' w0
    by (cases wr; simp add: updateTask_def saveTasks_def safeWriteTasks_def in_place_def Let_def)
  have p1: "\<exists>d'. updateTask_in taskId updates e d = Some (i, d')
            \<and> activity d' = activity d @
                 (case u_status updates of
                    None \<Rightarrow> []
                  | Some s \<Rightarrow>
                      if s \<noteq> [] \<and> s \<noteq> t_status (tasks d ! i)
                      then [moved_activity taskId (tasks d ! i)
                              (merge_updates (tasks d ! i) updates (e_iso e 0)) s e]
                      else [])
            \<and> writes (snd (updateTask taskId updates e wr st)) = writes st @ [snd (pruneTaskData d')]"
    using d' act wr by blast
  have p2: "a_action (moved_activity taskId old new s e) = ''moved''
       \<and> a_from (moved_activity taskId old new s e) = Some (t_status old)
       \<and> a_to (moved_activity taskId old new s e) = Some s"
    by (simp add: moved_activity_def)
  show ?thesis using p1 p2 two_patches[OF load idx, of e2] by blast
qed

theorem updateTask_moved_activity_witness:
  "fst (loadTasks (env_at 5000) store1) = doc1
   \<and> findIndex (\<lambda>t. t_id t = ''task-1'') (tasks doc1) = Some 0
   \<and> t_status (tasks doc1 ! 0) = ''inbox''
   \<and> map_option (map a_action \<circ> activity)
        (tasks_file (snd (updateTask ''task-1'' (status_only ''inbox'') (env_at 9000) WriteOk
                      (snd (updateTask ''task-1'' (status_only ''done'') (env_at 5000) WriteOk store1)))))
       = Some [''moved'', ''moved'']
   \<and> map_option (map a_from \<circ> activity)
        (tasks_file (snd (updateTask ''task-1'' (status_only ''inbox'') (env_at 9000) WriteOk
                      (snd (updateTask ''task-1'' (status_only ''done'') (env_at 5000) WriteOk store1)))))
       = Some [Some ''inbox'', Some ''done'']
   \<and> map_option (map a_to \<circ> activity)
        (tasks_file (snd (updateTask ''task-1'' (status_only ''inbox'') (env_at 9000) WriteOk
                      (snd (updateTask ''task-1'' (status_only ''done'') (env_at 5000) WriteOk store1)))))
       = Some [Some ''done'', Some ''inbox'']"
proof -
  obtain sh st0 where l: "loadTasks (env_at 5000) store1 = (doc1, sh, st0)"
    by (simp add: loadTasks_def read_file_def store1_def)
  have i: "findIndex (\<lambda>t. t_id t = ''task-1'') (tasks doc1) = Some 0"
    by (simp add: doc1_def task1_def)
  have s: "t_status (tasks doc1 ! 0) = ''inbox''"
    by (simp add: doc1_def task1_def)
  have a: "activity doc1 = []" by (simp add: doc1_def)
  from updateTask_moved_activity[OF l i, of "status_only ''done''" WriteOk _ _ _ "env_at 9000"] s
  obtain m1 m2 d2 where
    f: "tasks_file (snd (updateTask ''task-1'' (status_only ''inbox'') (env_at 9000) WriteOk
                      (snd (updateTask ''task-1'' (status_only ''done'') (env_at 5000) WriteOk store1)))) = Some d2"
    and d2: "activity d2 = slice_last MAX_ACTIVITY_ENTRIES (activity doc1 @ [m1, m2])"
    and m: "a_action m1 = ''moved''" "a_from m1 = Some ''inbox''" "a_to m1 = Some ''done''"
           "a_action m2 = ''moved''" "a_from m2 = Some ''done''" "a_to m2 = Some ''inbox''"
    by blast
  have "activity d2 = [m1, m2]"
    using d2 a by (simp add: slice_last_def MAX_ACTIVITY_ENTRIES_def)
  then show ?thesis using l i s f m by simp
qed

text \<open>
  The claim of C5 as stated is false: the updates \<^verbatim>\<open>{ status: "" }\<close> on a task in
  \<^verbatim>\<open>inbox\<close> include a status different from the prior one, the updated task has it, and
  the activity list written to the file is still empty.
\<close>

theorem updateTask_empty_status_counterexample:
  "map_option t_status
      (fst (updateTask ''task-1'' (status_only []) (env_at 5000) WriteOk store1)) = Some []
   \<and> map t_status (tasks doc1) = [''inbox'']
   \<and> activity doc1 = []
   \<and> map_option activity
        (tasks_file (snd (updateTask ''task-1'' (status_only []) (env_at 5000) WriteOk store1))) = Some []"
  by (simp add: updateTask_def updateTask_in_def loadTasks_def read_file_def saveTasks_def
      pruneTaskData_def prune_task_def safeWriteTasks_def in_place_def merge_updates_def
      truthy_str_def TASKS_CACHE_TTL_def MAX_ACTIVITY_ENTRIES_def Let_def
      store1_def doc1_def task1_def status_only_def env_at_def)

text \<open>
  Claim C6. For every \<open>createTask\<close> call the task returned is the new task. Its status
  is \<^verbatim>\<open>assigned\<close> when an assignee is given and \<^verbatim>\<open>inbox\<close> when there is none; the
  tests are \<^verbatim>\<open>assignee ? 'assigned' : 'inbox'\<close> and \<^verbatim>\<open>if (assignee)\<close>, so "none" is
  \<^verbatim>\<open>null\<close>, an argument left out, and the empty string (which the REST handler
  already turns into \<^verbatim>\<open>null\<close>: \<^verbatim>\<open>body.assignee || null\<close>). The task is appended to
  the tasks of the loaded document; exactly one \<^verbatim>\<open>created\<close> record is appended to its
  activity list, followed by exactly one \<^verbatim>\<open>assigned\<close> record when an assignee is given
  and by nothing otherwise; the document handed to the safe writer is that document,
  pruned.
\<close>

theorem createTask_status_and_activity:
  "fst (createTask title description assignee category priority e wr st)
       = new_task title description assignee category priority e
   \<and> t_status (new_task title description assignee category priority e)
       = (if assignee = None \<or> assignee = Some [] then ''inbox'' else ''assigned'')
   \<and> tasks (snd (createTask_in title description assignee category priority e d))
       = tasks d @ [new_task title description assignee category priority e]
   \<and> activity (snd (createTask_in title description assignee category priority e d))
       = activity d @ created_activity (new_task title description assignee category priority e) e #
           (if assignee = None \<or> assignee = Some [] then []
            else [assigned_activity (new_task title description assignee category priority e) assignee e])
   \<and> a_action (created_activity task e) = ''created''
   \<and> a_action (assigned_activity task assignee e) = ''assigned''
   \<and> writes (snd (createTask title description assignee category priority e wr st))
       = writes st @
           [snd (pruneTaskData (snd (createTask_in title description assignee category priority e
                                        (fst (loadTasks e st)))))]"
proof -
  have t: "truthy_opt assignee \<longleftrightarrow> \<not> (assignee = None \<or> assignee = Some [])"
    by (simp add: truthy_opt_def truthy_str_def split: option.splits)
  obtain d0 sh st0 where load: "loadTasks e st = (d0, sh, st0)" by (cases "loadTasks e st") auto
  have w0: "writes st0 = writes st" using loadTasks_writes[of e st] load by simp
  have a: "fst (createTask title description assignee category priority e wr st)
       = new_task title description assignee category priority e"
    using load by (simp add: createTask_def createTask_in_def Let_def split: prod.splits)
  have b: "t_status (new_task title description assignee category priority e)
       = (if assignee = None \<or> assignee = Some [] then ''inbox'' else ''assigned'')"
    using t by (simp add: new_task_def)
  have c: "tasks (snd (createTask_in title description assignee category priority e d))
       = tasks d @ [new_task title description assignee category priority e]"
    by (simp add: createTask_in_def Let_def)
  have dd: "activity (snd (createTask_in title description assignee category priority e d))
       = activity d @ created_activity (new_task title description assignee category priority e) e #
           (if assignee = None \<or> assignee = Some [] then []
            else [assigned_activity (new_task title description assignee category priority e) assignee e])"
    using t by (simp add: createTask_in_def Let_def)
  have f: "a_action (created_activity task e) = ''created''"
     "a_action (assigned_activity task assignee e) = ''assigned''"
    by (simp_all add: created_activity_def assigned_activity_def)
  have g: "writes (snd (createTask title description assignee category priority e wr st))
       = writes st @
           [snd (pruneTaskData (snd (createTask_in title description assignee category priority e
                                        (fst (loadTasks e st)))))]"
    using load w0
    by (cases wr; simp add: createTask_def saveTasks_def safeWriteTasks_def in_place_def Let_def
          split: prod.splits)
  show ?thesis using a b c dd f g by (intro conjI)
qed

text \<open>
  The three kinds of call on the store that holds one task: no assignee, the empty
  string, and an assignee.
\<close>

theorem createTask_status_and_activity_witness:
  "t_status (fst (createTask ''Scan the nebula'' [] None None None (env_at 5000) WriteOk store1)) = ''inbox''
   \<and> map_option (map a_action \<circ> activity)
        (tasks_file (snd (createTask ''Scan the nebula'' [] None None None (env_at 5000) WriteOk store1)))
       = Some [''created'']
   \<and> t_status (fst (createTask ''Scan the nebula'' [] (Some []) None None (env_at 5000) WriteOk store1)) = ''inbox''
   \<and> map_option (map a_action \<circ> activity)
        (tasks_file (snd (createTask ''Scan the nebula'' [] (Some []) None None (env_at 5000) WriteOk store1)))
       = Some [''created'']
   \<and> t_status (fst (createTask ''Scan the nebula'' [] (Some ''spock'') None None (env_at 5000) WriteOk store1))
       = ''assigned''
   \<and> map_option (map a_action \<circ> activity)
        (tasks_file (snd (createTask ''Scan the nebula'' [] (Some ''spock'') None None (env_at 5000) WriteOk store1)))
       = Some [''created'', ''assigned'']"
proof -
  have s: "t_status (fst (createTask ''Scan the nebula'' [] None None None (env_at 5000) WriteOk store1)) = ''inbox''"
    "t_status (fst (createTask ''Scan the nebula'' [] (Some []) None None (env_at 5000) WriteOk store1)) = ''inbox''"
    "t_status (fst (createTask ''Scan the nebula'' [] (Some ''spock'') None None (env_at 5000) WriteOk store1))
       = ''assigned''"
    using createTask_status_and_activity[of "''Scan the nebula''" "[]" None None None "env_at 5000" WriteOk store1]
      createTask_status_and_activity[of "''Scan the nebula''" "[]" "Some []" None None "env_at 5000" WriteOk store1]
      createTask_status_and_activity[of "''Scan the nebula''" "[]" "Some ''spock''" None None "env_at 5000" WriteOk store1]
    by simp_all
  have a: "map_option (map a_action \<circ> activity)
        (tasks_file (snd (createTask ''Scan the nebula'' [] None None None (env_at 5000) WriteOk store1)))
       = Some [''created'']"
    "map_option (map a_action \<circ> activity)
        (tasks_file (snd (createTask ''Scan the nebula'' [] (Some []) None None (env_at 5000) WriteOk store1)))
       = Some [''created'']"
    "map_option (map a_action \<circ> activity)
        (tasks_file (snd (createTask ''Scan the nebula'' [] (Some ''spock'') None None (env_at 5000) WriteOk store1)))
       = Some [''created'', ''assigned'']"
    by (simp_all add: createTask_def createTask_in_def new_task_def created_activity_def
      assigned_activity_def truthy_opt_def truthy_str_def loadTasks_def read_file_def saveTasks_def
      pruneTaskData_def prune_task_def safeWriteTasks_def in_place_def
      TASKS_CACHE_TTL_def MAX_ACTIVITY_ENTRIES_def Let_def
      store1_def doc1_def task1_def env_at_def)
  show ?thesis using s a by (intro conjI)
qed

text \<open>
  Claim C8. When the activity list of a document has more than 500 entries,
  \<open>pruneTaskData\<close> leaves exactly its last 500 entries, in their order (the entries are
  appended in time order, so these are the 500 most recent). Every task of the document is
  pruned by \<open>prune_task\<close>, which leaves of a log list of more than 50 entries exactly the
  last 50. What a successful \<open>saveTasks\<close> stores in the file is the pruned document: of
  600 activity records, the last 500.
\<close>

theorem pruneTaskData_keeps_most_recent:
  "(length (activity d) > 500 \<longrightarrow>
      activity (snd (pruneTaskData d)) = drop (length (activity d) - 500) (activity d)
      \<and> length (activity (snd (pruneTaskData d))) = 500)
   \<and> tasks (snd (pruneTaskData d)) = map prune_task (tasks d)
   \<and> (t_logs t = Some ls \<and> length ls > 50 \<longrightarrow>
        t_logs (prune_task t) = Some (drop (length ls - 50) ls)
        \<and> length (drop (length ls - 50) ls) = 50)
   \<and> tasks_file (snd (snd (saveTasks WriteOk shared d st))) = Some (snd (pruneTaskData d))"
  by (simp add: pruneTaskData_def prune_task_def slice_last_def saveTasks_def safeWriteTasks_def
      MAX_ACTIVITY_ENTRIES_def MAX_LOGS_PER_TASK_def Let_def)

theorem pruneTaskData_keeps_most_recent_witness:
  "length (activity doc600) = 600
   \<and> length (activity (snd (pruneTaskData doc600))) = 500
   \<and> activity (snd (pruneTaskData doc600)) ! 0 = activity_n 100
   \<and> activity (snd (pruneTaskData doc600)) ! 499 = activity_n 599
   \<and> map t_logs (tasks doc600) = [Some (map log_n [0..<60])]
   \<and> map t_logs (tasks (snd (pruneTaskData doc600))) = [Some (map log_n [10..<60])]
   \<and> map_option (length \<circ> activity) (tasks_file (snd (snd (saveTasks WriteOk True doc600 store1))))
       = Some 500"
proof -
  have l: "length (activity doc600) = 600" "activity doc600 = map activity_n [0..<600]"
    by (simp_all add: doc600_def)
  have g: "t_logs (task1\<lparr>t_logs := Some (map log_n [0..<60])\<rparr>) = Some (map log_n [0..<60])
           \<and> length (map log_n [0..<60]) > 50"
    by simp
  have k: "tasks doc600 = [task1\<lparr>t_logs := Some (map log_n [0..<60])\<rparr>]"
    by (simp add: doc600_def)
  from pruneTaskData_keeps_most_recent[of doc600 "task1\<lparr>t_logs := Some (map log_n [0..<60])\<rparr>"
      "map log_n [0..<60]" True store1] l g k
  show ?thesis by (simp add: drop_map)
qed

section \<open>Properties of the streak\<close>

lemma streak_loop_started:
  "ty \<noteq> JNull \<Longrightarrow>
   streak_loop ts c ty = (c + length (takeWhile (\<lambda>t. strict_eq (tr_result t) ty) ts), ty)"
  by (induction ts arbitrary: c) auto

lemma compute_streak_last:
  assumes "history \<noteq> []" and "tr_result (last history) \<noteq> JNull"
  shows "compute_streak history =
           \<lparr>s_count = length (takeWhile (\<lambda>t. strict_eq (tr_result t) (tr_result (last history)))
                                (rev (butlast history))) + 1,
            s_type = tr_result (last history)\<rparr>"
proof -
  have r: "rev history = last history # rev (butlast history)"
    using assms(1) by (metis append_butlast_last_id rev.simps(2) rev_rev_ident rev_swap)
  show ?thesis
    unfolding compute_streak_def r
    by (simp add: streak_loop_started[OF assms(2)])
qed

lemma map_filter_Some: "List.map_filter (\<lambda>t. t) (map Some xs) = xs"
  by (induction xs) (auto simp: List.map_filter_simps)

lemma list_ex_Some: "\<not> list_ex (\<lambda>t. t = None) (map Some xs)"
  by (induction xs) auto

text \<open>
  Claim C7, as amended. The claim as stated fails for a history whose most recent trade
  has the result \<^verbatim>\<open>null\<close>: \<^verbatim>\<open>null\<close> is also what \<^verbatim>\<open>streakType\<close> starts with, so the
  trade before it starts the count anew (the counterexample below); and \<open>getQuarkData\<close>
  gives the offline streak, not that of the history, when a statement of its \<^verbatim>\<open>try\<close>
  throws. What holds: the streak of the empty history is \<^verbatim>\<open>{ count: 0, type: null }\<close>.
  A history that is not empty and whose most recent trade has a result other than
  \<^verbatim>\<open>null\<close> splits into \<open>pre @ run @ [most recent trade]\<close>, where every trade of \<open>run\<close> has
  the same result as the most recent trade (\<^verbatim>\<open>===\<close>) and \<open>pre\<close> is empty or ends with a
  trade of another result: \<open>run\<close> with the most recent trade is the maximal suffix of one
  result, and the streak is its length and that result. In particular \<open>[win, win, loss]\<close>
  gives \<^verbatim>\<open>{ count: 1, type: "loss" }\<close> and \<open>[win, win]\<close> gives
  \<^verbatim>\<open>{ count: 2, type: "win" }\<close>. \<open>getQuarkData\<close> returns the streak of the portfolio's
  history when the portfolio has a balance and a starting balance (the streak of the empty
  history when it has no history), and \<^verbatim>\<open>{ count: 0, type: null }\<close> when one of the two
  is missing or the file cannot be read.
\<close>

theorem compute_streak_maximal_suffix:
  "compute_streak [] = \<lparr>s_count = 0, s_type = JNull\<rparr>
   \<and> (history \<noteq> [] \<and> tr_result (last history) \<noteq> JNull \<longrightarrow>
        (\<exists>pre run. history = pre @ run @ [last history]
           \<and> list_all (\<lambda>t. strict_eq (tr_result t) (tr_result (last history))) run
           \<and> (pre = [] \<or> \<not> strict_eq (tr_result (last pre)) (tr_result (last history)))
           \<and> compute_streak history
               = \<lparr>s_count = length run + 1, s_type = tr_result (last history)\<rparr>))
   \<and> compute_streak [win, win, loss] = \<lparr>s_count = 1, s_type = JStr ''loss''\<rparr>
   \<and> compute_streak [win, win] = \<lparr>s_count = 2, s_type = JStr ''win''\<rparr>
   \<and> getQuarkData_streak None = \<lparr>s_count = 0, s_type = JNull\<rparr>
   \<and> (pf_balance data' \<noteq> None \<and> pf_starting_balance data' \<noteq> None
        \<and> pf_history data' = Some (map Some history) \<longrightarrow>
          getQuarkData_streak (Some data') = compute_streak history)
   \<and> (pf_balance data' \<noteq> None \<and> pf_starting_balance data' \<noteq> None \<and> pf_history data' = None \<longrightarrow>
          getQuarkData_streak (Some data') = \<lparr>s_count = 0, s_type = JNull\<rparr>)
   \<and> (pf_balance data' = None \<or> pf_starting_balance data' = None \<longrightarrow>
          getQuarkData_streak (Some data') = \<lparr>s_count = 0, s_type = JNull\<rparr>)"
proof -
  have e: "compute_streak [] = \<lparr>s_count = 0, s_type = JNull\<rparr>"
    by (simp add: compute_streak_def)
  have g: "history \<noteq> [] \<and> tr_result (last history) \<noteq> JNull \<longrightarrow>
        (\<exists>pre run. history = pre @ run @ [last history]
           \<and> list_all (\<lambda>t. strict_eq (tr_result t) (tr_result (last history))) run
           \<and> (pre = [] \<or> \<not> strict_eq (tr_result (last pre)) (tr_result (last history)))
           \<and> compute_streak history
               = \<lparr>s_count = length run + 1, s_type = tr_result (last history)\<rparr>)"
  proof
    assume a: "history \<noteq> [] \<and> tr_result (last history) \<noteq> JNull"
    let ?P = "\<lambda>t. strict_eq (tr_result t) (tr_result (last history))"
    let ?older = "rev (butlast history)"
    let ?run = "rev (takeWhile ?P ?older)"
    let ?pre = "rev (dropWhile ?P ?older)"
    have "butlast history = ?pre @ ?run"
      by (metis rev_append rev_rev_ident takeWhile_dropWhile_id)
    then have split: "history = ?pre @ ?run @ [last history]"
      using a by (metis append.assoc append_butlast_last_id)
    have all: "list_all ?P ?run"
      by (simp add: list_all_iff) (meson set_takeWhileD)
    have mx: "?pre = [] \<or> \<not> strict_eq (tr_result (last ?pre)) (tr_result (last history))"
    proof (cases "dropWhile ?P ?older = []")
      case True then show ?thesis by simp
    next
      case False
      then have "\<not> ?P (hd (dropWhile ?P ?older))" by (rule hd_dropWhile)
      then show ?thesis using False by (simp add: last_rev)
    qed
    have cs: "compute_streak history
               = \<lparr>s_count = length ?run + 1, s_type = tr_result (last history)\<rparr>"
      using compute_streak_last[of history] a by simp
    show "\<exists>pre run. history = pre @ run @ [last history]
           \<and> list_all ?P run
           \<and> (pre = [] \<or> \<not> strict_eq (tr_result (last pre)) (tr_result (last history)))
           \<and> compute_streak history
               = \<lparr>s_count = length run + 1, s_type = tr_result (last history)\<rparr>"
      using split all mx cs by blast
  qed
  have x1: "compute_streak [win, win, loss] = \<lparr>s_count = 1, s_type = JStr ''loss''\<rparr>"
    by (simp add: compute_streak_def win_def loss_def)
  have x2: "compute_streak [win, win] = \<lparr>s_count = 2, s_type = JStr ''win''\<rparr>"
    by (simp add: compute_streak_def win_def)
  have q0: "getQuarkData_streak None = \<lparr>s_count = 0, s_type = JNull\<rparr>"
    by (simp add: getQuarkData_streak_def)
  have q1: "pf_balance data' \<noteq> None \<and> pf_starting_balance data' \<noteq> None
        \<and> pf_history data' = Some (map Some history) \<longrightarrow>
          getQuarkData_streak (Some data') = compute_streak history"
    by (simp add: getQuarkData_streak_def Let_def map_filter_Some list_ex_Some)
  have q2: "pf_balance data' \<noteq> None \<and> pf_starting_balance data' \<noteq> None \<and> pf_history data' = None \<longrightarrow>
          getQuarkData_streak (Some data') = \<lparr>s_count = 0, s_type = JNull\<rparr>"
    by (simp add: getQuarkData_streak_def Let_def List.map_filter_simps compute_streak_def)
  have q3: "pf_balance data' = None \<or> pf_starting_balance data' = None \<longrightarrow>
          getQuarkData_streak (Some data') = \<lparr>s_count = 0, s_type = JNull\<rparr>"
    by (auto simp: getQuarkData_streak_def Let_def)
  show ?thesis using e g x1 x2 q0 q1 q2 q3 by (intro conjI)
qed

theorem compute_streak_maximal_suffix_witness:
  "[loss, win, loss, loss, loss] \<noteq> []
   \<and> tr_result (last [loss, win, loss, loss, loss]) = JStr ''loss''
   \<and> [loss, win, loss, loss, loss] = [loss, win] @ [loss, loss] @ [last [loss, win, loss, loss, loss]]
   \<and> tr_result (last [loss, win]) = JStr ''win''
   \<and> pf_balance (portfolio_of [loss, win, loss, loss, loss]) = Some 120
   \<and> pf_starting_balance (portfolio_of [loss, win, loss, loss, loss]) = Some 100
   \<and> getQuarkData_streak (Some (portfolio_of [loss, win, loss, loss, loss]))
        = \<lparr>s_count = 3, s_type = JStr ''loss''\<rparr>
   \<and> pf_balance ((portfolio_of [win, win])\<lparr>pf_balance := None\<rparr>) = None
   \<and> getQuarkData_streak (Some ((portfolio_of [win, win])\<lparr>pf_balance := None\<rparr>))
        = \<lparr>s_count = 0, s_type = JNull\<rparr>"
proof -
  have c: "compute_streak [loss, win, loss, loss, loss] = \<lparr>s_count = 3, s_type = JStr ''loss''\<rparr>"
    by (simp add: compute_streak_def win_def loss_def)
  have p: "pf_balance (portfolio_of [loss, win, loss, loss, loss]) = Some 120"
    "pf_starting_balance (portfolio_of [loss, win, loss, loss, loss]) = Some 100"
    "pf_history (portfolio_of [loss, win, loss, loss, loss]) = Some (map Some [loss, win, loss, loss, loss])"
    "pf_balance ((portfolio_of [win, win])\<lparr>pf_balance := None\<rparr>) = None"
    by (simp_all add: portfolio_of_def)
  from compute_streak_maximal_suffix[of "[loss, win, loss, loss, loss]"
      "portfolio_of [loss, win, loss, loss, loss]"]
    compute_streak_maximal_suffix[of "[]" "(portfolio_of [win, win])\<lparr>pf_balance := None\<rparr>"] c p
  show ?thesis by (simp add: win_def loss_def)
qed

text \<open>
  The claim of C7 as stated is false: in the history \<open>[win, void, void]\<close> the two most
  recent trades share the result \<^verbatim>\<open>null\<close>, so the maximal suffix of one result has
  length 2 and the result \<^verbatim>\<open>null\<close>; the streak of \<open>getQuarkData\<close> is
  \<^verbatim>\<open>{ count: 1, type: "win" }\<close>.
\<close>

theorem getQuarkData_null_result_counterexample:
  "getQuarkData_streak (Some (portfolio_of [win, void, void])) = \<lparr>s_count = 1, s_type = JStr ''win''\<rparr>
   \<and> map tr_result [win, void, void] = [JStr ''win'', JNull, JNull]
   \<and> strict_eq JNull JNull"
  by (simp add: getQuarkData_streak_def compute_streak_def portfolio_of_def win_def void_def
      List.map_filter_simps Let_def)

section \<open>Properties of the broadcast hub\<close>

lemma call_at_pending:
  assumes "broadcastTimeout h = Some w" and "fst c < w"
  shows "call_at c h = h\<lparr>broadcastQueue := Some (snd c)\<rparr>"
  using assms by (simp add: call_at_def run_timers_def broadcast_def)

lemma call_at_idle:
  assumes "broadcastTimeout h = None"
  shows "call_at c h = h\<lparr>broadcastQueue := Some (snd c), broadcastTimeout := Some (fst c + DEBOUNCE_MS)\<rparr>"
  using assms by (simp add: call_at_def run_timers_def broadcast_def)

lemma run_calls_pending:
  assumes "broadcastTimeout h = Some w" and "list_all (within_window w) calls" and "calls \<noteq> []"
  shows "run_calls calls h = h\<lparr>broadcastQueue := Some (snd (last calls))\<rparr>"
  using assms
proof (induction calls arbitrary: h)
  case Nil
  then show ?case by simp
next
  case (Cons c cs)
  have c: "call_at c h = h\<lparr>broadcastQueue := Some (snd c)\<rparr>"
    using call_at_pending[OF Cons.prems(1)] Cons.prems(2) by (simp add: within_window_def)
  show ?case
  proof (cases "cs = []")
    case True
    then show ?thesis using c by (simp add: run_calls_def)
  next
    case False
    have "run_calls cs (h\<lparr>broadcastQueue := Some (snd c)\<rparr>)
            = h\<lparr>broadcastQueue := Some (snd c)\<rparr>\<lparr>broadcastQueue := Some (snd (last cs))\<rparr>"
      using Cons.IH[of "h\<lparr>broadcastQueue := Some (snd c)\<rparr>"] Cons.prems False by simp
    then show ?thesis using c False by (simp add: run_calls_def)
  qed
qed

lemma run_calls_burst:
  assumes "calls \<noteq> []"
      and "list_all (within_window (window_end h (fst (hd calls)))) calls"
  shows "run_calls calls h =
           h\<lparr>broadcastQueue := Some (snd (last calls)),
             broadcastTimeout := Some (window_end h (fst (hd calls)))\<rparr>"
proof -
  obtain c cs where cc: "calls = c # cs" using assms(1) by (cases calls) auto
  let ?w = "window_end h (fst c)"
  have first: "call_at c h = h\<lparr>broadcastQueue := Some (snd c), broadcastTimeout := Some ?w\<rparr>"
  proof (cases "broadcastTimeout h")
    case None
    then show ?thesis using call_at_idle[OF None, of c] by (simp add: window_end_def)
  next
    case (Some w)
    then have "fst c < w" using assms(2) cc by (simp add: window_end_def within_window_def)
    then show ?thesis using call_at_pending[OF Some, of c] Some by (simp add: window_end_def)
  qed
  show ?thesis
  proof (cases "cs = []")
    case True
    then show ?thesis using first cc by (simp add: run_calls_def)
  next
    case False
    let ?h1 = "h\<lparr>broadcastQueue := Some (snd c), broadcastTimeout := Some ?w\<rparr>"
    have "run_calls cs ?h1 = ?h1\<lparr>broadcastQueue := Some (snd (last cs))\<rparr>"
      using run_calls_pending[of ?h1 ?w cs] assms(2) cc False by simp
    then show ?thesis using first cc False by (simp add: run_calls_def)
  qed
qed

text \<open>
  Claim C9. A burst is a list of \<^verbatim>\<open>broadcast\<close> calls, not empty, that all come before the
  end of one debounce window: before the pending timer is due, or, when no timer is
  pending, less than 100 ms after the first call of the burst, which sets the timer.
  During the burst nothing is sent. When the timer runs, at a time \<open>T\<close> at or after the
  end of the window, exactly one send is made to each client whose state is \<^verbatim>\<open>OPEN\<close> and
  none to the others, with the payload of the last call of the burst; the queue is then
  empty and no timer is pending, so nothing more is sent until the next call.
\<close>

theorem broadcast_burst_one_send:
  assumes "calls \<noteq> []"
      and "list_all (within_window (window_end h (fst (hd calls)))) calls"
      and "window_end h (fst (hd calls)) \<le> T"
  shows "outbox (run_calls calls h) = outbox h
       \<and> run_timers T (run_calls calls h) =
           h\<lparr>outbox := outbox h @ map (\<lambda>c. (cl_id c, snd (last calls)))
                                       (filter (\<lambda>c. readyState c = OPEN) (clients h)),
             broadcastQueue := None, broadcastTimeout := None\<rparr>"
  using assms(3) by (simp add: run_calls_burst[OF assms(1,2)] run_timers_def timer_callback_def)

theorem broadcast_burst_one_send_witness:
  "burst10 \<noteq> []
   \<and> list_all (within_window (window_end hub3 (fst (hd burst10)))) burst10
   \<and> window_end hub3 (fst (hd burst10)) \<le> 1100
   \<and> length burst10 = 10
   \<and> map fst burst10 = [1000, 1005, 1010, 1015, 1020, 1025, 1030, 1035, 1040, 1049]
   \<and> outbox (run_calls burst10 hub3) = []
   \<and> outbox (run_timers 1100 (run_calls burst10 hub3)) = [(1, update_n 10), (3, update_n 10)]"
proof -
  have h1: "burst10 \<noteq> []" by (simp add: burst10_def)
  have h2: "list_all (within_window (window_end hub3 (fst (hd burst10)))) burst10"
    by (simp add: burst10_def hub3_def window_end_def within_window_def DEBOUNCE_MS_def)
  have h3: "window_end hub3 (fst (hd burst10)) \<le> 1100"
    by (simp add: burst10_def hub3_def window_end_def DEBOUNCE_MS_def)
  have l: "length burst10 = 10" "last burst10 = (1049, update_n 10)"
    "map fst burst10 = [1000, 1005, 1010, 1015, 1020, 1025, 1030, 1035, 1040, 1049]"
    by (simp_all add: burst10_def)
  from broadcast_burst_one_send[OF h1 h2 h3] have
    "outbox (run_calls burst10 hub3) = outbox hub3"
    "outbox (run_timers 1100 (run_calls burst10 hub3)) =
       outbox hub3 @ map (\<lambda>c. (cl_id c, snd (last burst10))) (filter (\<lambda>c. readyState c = OPEN) (clients hub3))"
    by simp_all
  then have "outbox (run_calls burst10 hub3) = []"
    "outbox (run_timers 1100 (run_calls burst10 hub3)) = [(1, update_n 10), (3, update_n 10)]"
    by (simp_all add: l hub3_def)
  then show ?thesis using h1 h2 h3 l by simp
qed

section \<open>Properties of the message store\<close>

text \<open>
  Claim C10. For every \<open>createMessage\<close> call the message returned is the new message:
  \<^verbatim>\<open>read\<close> is false, \<^verbatim>\<open>status\<close> is \<^verbatim>\<open>pending\<close>, \<^verbatim>\<open>from\<close> and \<^verbatim>\<open>to\<close> are the
  lowercased arguments. The document is changed by appending this message at the end of
  its messages, the others as they were; after a successful write the file holds the
  loaded document with the message appended and \<^verbatim>\<open>lastUpdated\<close> set.
\<close>

theorem createMessage_appends_pending:
  "fst (createMessage from' to' subject content type' taskId e written st)
      = new_message from' to' subject content type' taskId e
   \<and> m_read (new_message from' to' subject content type' taskId e) = False
   \<and> m_status (new_message from' to' subject content type' taskId e) = ''pending''
   \<and> m_from (new_message from' to' subject content type' taskId e) = toLowerCase from'
   \<and> m_to (new_message from' to' subject content type' taskId e) = toLowerCase to'
   \<and> messages (snd (createMessage_in from' to' subject content type' taskId e d))
      = messages d @ [new_message from' to' subject content type' taskId e]
   \<and> messages_file (snd (createMessage from' to' subject content type' taskId e True st))
      = Some ((fst (loadMessages e st))
               \<lparr>messages := messages (fst (loadMessages e st))
                              @ [new_message from' to' subject content type' taskId e],
                md_lastUpdated := e_iso e 1\<rparr>)
   \<and> toLowerCase ''Geordi-2'' = ''geordi-2''"
proof -
  obtain d0 sh st1 where l: "loadMessages e st = (d0, sh, st1)" by (cases "loadMessages e st") auto
  have a: "fst (createMessage from' to' subject content type' taskId e written st)
      = new_message from' to' subject content type' taskId e"
    using l by (simp add: createMessage_def createMessage_in_def Let_def split: prod.splits)
  have b: "messages_file (snd (createMessage from' to' subject content type' taskId e True st))
      = Some ((fst (loadMessages e st))
               \<lparr>messages := messages (fst (loadMessages e st))
                              @ [new_message from' to' subject content type' taskId e],
                md_lastUpdated := e_iso e 1\<rparr>)"
    using l by (simp add: createMessage_def createMessage_in_def saveMessages_def Let_def)
  have c: "toLowerCase ''Geordi-2'' = ''geordi-2''"
    by (simp add: toLowerCase_def lower_char_def)
  have m: "messages (snd (createMessage_in from' to' subject content type' taskId e d))
      = messages d @ [new_message from' to' subject content type' taskId e]"
    by (simp add: createMessage_in_def Let_def)
  show ?thesis using a b c m by (simp add: new_message_def)
qed

text \<open>
  A message from \<^verbatim>\<open>Seven\<close> to \<^verbatim>\<open>GEORDI\<close> on the store that holds one message: it
  is written to the file after that message, which is as it was.
\<close>

theorem createMessage_appends_pending_witness:
  "m_from (fst (createMessage ''Seven'' ''GEORDI'' ''Shields'' None None None (env_at 5000) True msg_store1))
      = ''seven''
   \<and> m_to (fst (createMessage ''Seven'' ''GEORDI'' ''Shields'' None None None (env_at 5000) True msg_store1))
      = ''geordi''
   \<and> map_option (map m_status \<circ> messages)
        (messages_file (snd (createMessage ''Seven'' ''GEORDI'' ''Shields'' None None None (env_at 5000) True
                               msg_store1)))
      = Some [''completed'', ''pending'']
   \<and> map_option (map m_read \<circ> messages)
        (messages_file (snd (createMessage ''Seven'' ''GEORDI'' ''Shields'' None None None (env_at 5000) True
                               msg_store1)))
      = Some [True, False]
   \<and> map_option (hd \<circ> messages)
        (messages_file (snd (createMessage ''Seven'' ''GEORDI'' ''Shields'' None None None (env_at 5000) True
                               msg_store1)))
      = Some msg1"
proof -
  have l: "fst (loadMessages (env_at 5000) msg_store1)
             = \<lparr>md_version = ''1.0'', md_lastUpdated = ''2026-01-31T09:00:00.000Z'', messages = [msg1]\<rparr>"
    by (simp add: loadMessages_def read_messages_file_def msg_store1_def)
  have lc: "toLowerCase ''Seven'' = ''seven''" "toLowerCase ''GEORDI'' = ''geordi''"
    by (simp_all add: toLowerCase_def lower_char_def)
  have m: "m_status msg1 = ''completed''" "m_read msg1 = True" by (simp_all add: msg1_def)
  from createMessage_appends_pending[of "''Seven''" "''GEORDI''" "''Shields''" None None None
      "env_at 5000" True msg_store1] l lc m
  show ?thesis by simp
qed

end
